theory Spec2Isabelle
  imports Complex_Main
begin

section \<open>JavaScript strings\<close>

text \<open>
  A JavaScript string is a sequence of UTF-16 code units. A code unit is modelled by its
  numeric value, so that the euro sign of the amount patterns (U+20AC) has a place next to
  the ASCII letters. Literals of the source are written as HOL strings and converted with
  \<open>js\<close>.
\<close>

type_synonym jsstring = "nat list"

definition js :: "string \<Rightarrow> jsstring" where
  "js s = map of_char s"

definition cu :: "char \<Rightarrow> nat" where
  "cu c = of_char c"

text \<open>The euro and pound signs of the source's patterns.\<close>

definition EURO :: nat where "EURO = 8364"
definition POUND :: nat where "POUND = 163"

text \<open>
  \<open>toUpperCase\<close> and \<open>toLowerCase\<close> on one code unit. The embedding carries the case
  mapping of the ASCII letters; every other code unit is left as it is.
\<close>

definition upperCU :: "nat \<Rightarrow> nat" where
  "upperCU c = (if 97 \<le> c \<and> c \<le> 122 then c - 32 else c)"

definition lowerCU :: "nat \<Rightarrow> nat" where
  "lowerCU c = (if 65 \<le> c \<and> c \<le> 90 then c + 32 else c)"

definition toLowerCase :: "jsstring \<Rightarrow> jsstring" where
  "toLowerCase s = map lowerCU s"

definition toUpperCase :: "jsstring \<Rightarrow> jsstring" where
  "toUpperCase s = map upperCU s"

fun startsWith :: "jsstring \<Rightarrow> jsstring \<Rightarrow> bool" where
  "startsWith s [] = True"
| "startsWith [] (p # ps) = False"
| "startsWith (c # cs) (p # ps) = (c = p \<and> startsWith cs ps)"

text \<open>\<open>s.includes(sub)\<close>: \<open>sub\<close> occurs somewhere in \<open>s\<close>.\<close>

fun includes_str :: "jsstring \<Rightarrow> jsstring \<Rightarrow> bool" where
  "includes_str [] sub = (sub = [])"
| "includes_str (c # cs) sub = (startsWith (c # cs) sub \<or> includes_str cs sub)"

section \<open>Regular expressions\<close>

text \<open>
  The patterns of the source use literals, character classes, alternation, optional
  groups, greedy quantifiers on single character classes, the end-of-input assertion
  (\<open>Eos\<close>, the \<open>$\<close> of a pattern without the \<open>m\<close> flag) and at most one capture
  group.
  \<open>rx\<close> is the syntax of that fragment; \<open>m\<close> is a backtracking matcher in
  continuation-passing style that tries the alternatives in the order of the ECMAScript
  semantics (left alternative first, greedy quantifiers longest first).
\<close>

datatype rx =
    Eps
  | Atom "nat \<Rightarrow> bool"
  | Seq rx rx
  | Alt rx rx
  | Opt rx
  | Many nat "nat option" "nat \<Rightarrow> bool"
  | Grp rx
  | Eos

text \<open>Character classes.\<close>

definition is_cu :: "nat \<Rightarrow> nat \<Rightarrow> bool" where
  "is_cu x c = (c = x)"

text \<open>A letter under the \<open>i\<close> flag: both sides are canonicalised to upper case.\<close>

definition is_ci :: "nat \<Rightarrow> nat \<Rightarrow> bool" where
  "is_ci x c = (upperCU c = upperCU x)"

text \<open>\<open>.\<close> matches every code unit but the line terminators.\<close>

definition dot :: "nat \<Rightarrow> bool" where
  "dot c = (c \<noteq> 10 \<and> c \<noteq> 13 \<and> c \<noteq> 8232 \<and> c \<noteq> 8233)"

definition digit :: "nat \<Rightarrow> bool" where
  "digit c = (48 \<le> c \<and> c \<le> 57)"

text \<open>\<open>\s\<close>: the white space and line terminator code units of ECMAScript.\<close>

definition space :: "nat \<Rightarrow> bool" where
  "space c = ((9 \<le> c \<and> c \<le> 13) \<or> c = 32 \<or> c = 160 \<or> c = 5760
      \<or> (8192 \<le> c \<and> c \<le> 8202) \<or> c = 8232 \<or> c = 8233 \<or> c = 8239 \<or> c = 8287
      \<or> c = 12288 \<or> c = 65279)"

definition upperAZ :: "nat \<Rightarrow> bool" where
  "upperAZ c = (65 \<le> c \<and> c \<le> 90)"

definition lowerAZ :: "nat \<Rightarrow> bool" where
  "lowerAZ c = (97 \<le> c \<and> c \<le> 122)"

text \<open>\<open>[A-Za-z0-9\s]\<close>\<close>

definition alnumSpace :: "nat \<Rightarrow> bool" where
  "alnumSpace c = (upperAZ c \<or> lowerAZ c \<or> digit c \<or> space c)"

text \<open>\<open>[-\s]\<close>\<close>

definition dashSpace :: "nat \<Rightarrow> bool" where
  "dashSpace c = (c = 45 \<or> space c)"

text \<open>\<open>[^.]\<close>\<close>

definition notPeriod :: "nat \<Rightarrow> bool" where
  "notPeriod c = (c \<noteq> 46)"

text \<open>
  The matcher is a backtracking machine on a stack of frames: the patterns still to be
  matched, and the marks that close the capture group (a mark remembers the input at the
  point where the group was opened). Alternatives are tried in the order of the
  ECMAScript semantics: the left alternative first, a greedy quantifier with the longest
  repetition first.
\<close>

datatype frame = Rx rx | Close jsstring

fun rsize :: "rx \<Rightarrow> nat" where
  "rsize Eps = 1"
| "rsize (Atom p) = 1"
| "rsize (Seq a b) = Suc (rsize a + rsize b)"
| "rsize (Alt a b) = Suc (rsize a + rsize b)"
| "rsize (Opt a) = Suc (rsize a)"
| "rsize (Many lo hi p) = 1"
| "rsize (Grp a) = Suc (Suc (rsize a))"
| "rsize Eos = 1"

fun fsize :: "frame \<Rightarrow> nat" where
  "fsize (Rx r) = rsize r"
| "fsize (Close s0) = 1"

text \<open>\<open>consumed s0 s\<close>: the part of \<open>s0\<close> in front of its suffix \<open>s\<close>.\<close>

definition consumed :: "jsstring \<Rightarrow> jsstring \<Rightarrow> jsstring" where
  "consumed s0 s = take (length s0 - length s) s0"

text \<open>
  \<open>run fs s g\<close>: match the frames \<open>fs\<close> at the head of \<open>s\<close>; \<open>g\<close> is the text of
  capture group 1 so far. The result is the input left after the match, with the capture.
  \<open>Many lo hi p\<close> is the greedy quantifier \<open>{lo,hi}\<close> on the class \<open>p\<close> (\<open>hi = None\<close>:
  unbounded): it takes one more code unit while it can; when the rest of the pattern
  fails it gives back one code unit at a time, down to \<open>lo\<close>.
\<close>

function run :: "frame list \<Rightarrow> jsstring \<Rightarrow> jsstring option \<Rightarrow> (jsstring \<times> jsstring option) option" where
  "run [] s g = Some (s, g)"
| "run (Close s0 # fs) s g = run fs s (Some (consumed s0 s))"
| "run (Rx Eps # fs) s g = run fs s g"
| "run (Rx (Atom p) # fs) [] g = None"
| "run (Rx (Atom p) # fs) (c # cs) g = (if p c then run fs cs g else None)"
| "run (Rx (Seq a b) # fs) s g = run (Rx a # Rx b # fs) s g"
| "run (Rx (Alt a b) # fs) s g =
     (case run (Rx a # fs) s g of Some r \<Rightarrow> Some r | None \<Rightarrow> run (Rx b # fs) s g)"
| "run (Rx (Opt a) # fs) s g =
     (case run (Rx a # fs) s g of Some r \<Rightarrow> Some r | None \<Rightarrow> run fs s g)"
| "run (Rx (Grp a) # fs) s g = run (Rx a # Close s # fs) s g"
| "run (Rx Eos # fs) s g = (if s = [] then run fs s g else None)"
| "run (Rx (Many lo hi p) # fs) [] g = (if lo = 0 then run fs [] g else None)"
| "run (Rx (Many lo hi p) # fs) (c # cs) g =
     (if p c \<and> hi \<noteq> Some 0
      then (case run (Rx (Many (lo - 1) (map_option (\<lambda>h. h - 1) hi) p) # fs) cs g of
              Some r \<Rightarrow> Some r
            | None \<Rightarrow> if lo = 0 then run fs (c # cs) g else None)
      else if lo = 0 then run fs (c # cs) g else None)"
  by pat_completeness auto
termination
  by (relation "measure (\<lambda>(fs, s, g). sum_list (map fsize fs) + length s)") auto

text \<open>The result of a successful match: \<open>match[0]\<close>, \<open>match[1]\<close> and the input after the match.\<close>

record Match =
  whole :: jsstring
  group1 :: "jsstring option"
  after :: jsstring

definition exec_at :: "rx \<Rightarrow> jsstring \<Rightarrow> Match option" where
  "exec_at r s =
     (case run [Rx r] s None of
        None \<Rightarrow> None
      | Some (s', g) \<Rightarrow> Some \<lparr>whole = consumed s s', group1 = g, after = s'\<rparr>)"

text \<open>The leftmost match: the start positions are tried from left to right.\<close>

fun search :: "rx \<Rightarrow> jsstring \<Rightarrow> Match option" where
  "search r [] = exec_at r []"
| "search r (c # cs) =
     (case exec_at r (c # cs) of Some mt \<Rightarrow> Some mt | None \<Rightarrow> search r cs)"

text \<open>\<open>pattern.test(s)\<close> for a pattern without the \<open>g\<close> flag.\<close>

definition test :: "rx \<Rightarrow> jsstring \<Rightarrow> bool" where
  "test r s = (search r s \<noteq> None)"

text \<open>Building patterns.\<close>

definition seqs :: "rx list \<Rightarrow> rx" where
  "seqs rs = foldr Seq rs Eps"

fun alts :: "rx list \<Rightarrow> rx" where
  "alts [] = Eps"
| "alts [r] = r"
| "alts (r # rs) = Alt r (alts rs)"

definition chr :: "char \<Rightarrow> rx" where
  "chr c = Atom (is_cu (cu c))"

definition lit :: "string \<Rightarrow> rx" where
  "lit s = seqs (map (\<lambda>c. Atom (is_cu (cu c))) s)"

definition liti :: "string \<Rightarrow> rx" where
  "liti s = seqs (map (\<lambda>c. Atom (is_ci (cu c))) s)"

definition star :: "(nat \<Rightarrow> bool) \<Rightarrow> rx" where
  "star p = Many 0 None p"

definition plus :: "(nat \<Rightarrow> bool) \<Rightarrow> rx" where
  "plus p = Many 1 None p"

definition upto :: "nat \<Rightarrow> (nat \<Rightarrow> bool) \<Rightarrow> rx" where
  "upto n p = Many 0 (Some n) p"

definition exactly :: "nat \<Rightarrow> (nat \<Rightarrow> bool) \<Rightarrow> rx" where
  "exactly n p = Many n (Some n) p"

text \<open>\<open>joined sep [a, b, c]\<close> is \<open>a sep b sep c\<close>.\<close>

fun joined :: "rx \<Rightarrow> rx list \<Rightarrow> rx" where
  "joined sep [] = Eps"
| "joined sep [r] = r"
| "joined sep (r # rs) = Seq r (Seq sep (joined sep rs))"

text \<open>\<open>w1.*w2.*w3\<close> under the \<open>i\<close> flag.\<close>

definition words :: "string list \<Rightarrow> rx" where
  "words ws = joined (star dot) (map liti ws)"

text \<open>\<open>w1.{0,20}w2\<close> under the \<open>i\<close> flag.\<close>

definition near :: "rx list \<Rightarrow> rx" where
  "near rs = joined (upto 20 dot) rs"

section \<open>String operations of the source\<close>

text \<open>\<open>s.split(sep)\<close> for a separator of one code unit.\<close>

fun split_on :: "nat \<Rightarrow> jsstring \<Rightarrow> jsstring list" where
  "split_on sep [] = [[]]"
| "split_on sep (c # cs) =
     (if c = sep then [] # split_on sep cs
      else (case split_on sep cs of
              [] \<Rightarrow> [[c]]
            | w # ws \<Rightarrow> (c # w) # ws))"

text \<open>\<open>xs[i]\<close>: \<open>undefined\<close> out of range.\<close>

fun at_index :: "'a list \<Rightarrow> nat \<Rightarrow> 'a option" where
  "at_index [] i = None"
| "at_index (x # xs) 0 = Some x"
| "at_index (x # xs) (Suc i) = at_index xs i"

text \<open>\<open>s.split(/\s+/)\<close>: the pieces between the maximal runs of white space.\<close>

function split_ws :: "jsstring \<Rightarrow> jsstring list" where
  "split_ws [] = [[]]"
| "split_ws (c # cs) =
     (if space c then [] # split_ws (dropWhile space cs)
      else (case split_ws cs of
              [] \<Rightarrow> [[c]]
            | w # ws \<Rightarrow> (c # w) # ws))"
  by pat_completeness auto
termination
  by (relation "measure length") (auto simp: length_dropWhile_le less_Suc_eq_le)

text \<open>\<open>s.trim()\<close>\<close>

definition trim :: "jsstring \<Rightarrow> jsstring" where
  "trim s = rev (dropWhile space (rev (dropWhile space s)))"

text \<open>\<open>s.charAt(0).toUpperCase() + s.slice(1)\<close>\<close>

definition capitalize :: "jsstring \<Rightarrow> jsstring" where
  "capitalize s = toUpperCase (take 1 s) @ drop 1 s"

text \<open>\<open>s.replace(pat, '')\<close> for a string \<open>pat\<close>: the first occurrence is removed.\<close>

fun remove_first :: "jsstring \<Rightarrow> jsstring \<Rightarrow> jsstring" where
  "remove_first pat [] = []"
| "remove_first pat (c # cs) =
     (if startsWith (c # cs) pat then drop (length pat) (c # cs)
      else c # remove_first pat cs)"

text \<open>
  \<open>parseFloat\<close> on the texts the amount patterns capture (digits with an optional
  fraction): the decimal value; \<open>None\<close> is \<open>NaN\<close>, for a text with no digit in front of
  it. Amounts are exact rationals.
\<close>

definition digits_value :: "jsstring \<Rightarrow> nat" where
  "digits_value ds = foldl (\<lambda>a c. 10 * a + (c - 48)) 0 ds"

definition parseFloat :: "jsstring \<Rightarrow> rat option" where
  "parseFloat s =
     (let ip = takeWhile digit s;
          rest = dropWhile digit s;
          fp = (case rest of
                  [] \<Rightarrow> []
                | c # cs \<Rightarrow> if c = 46 then takeWhile digit cs else [])
      in if ip = [] \<and> fp = [] then None
         else Some (of_nat (digits_value ip) + of_nat (digits_value fp) / 10 ^ length fp))"

text \<open>
  The loop \<open>for (const pattern of patterns) { const match = content.match(pattern);
  if (match && match[1]) return match[1].trim(); }\<close> of both service-name functions.
\<close>

fun first_capture :: "rx list \<Rightarrow> jsstring \<Rightarrow> jsstring option" where
  "first_capture [] content = None"
| "first_capture (p # ps) content =
     (case search p content of
        None \<Rightarrow> first_capture ps content
      | Some mt \<Rightarrow>
          (case group1 mt of
             None \<Rightarrow> first_capture ps content
           | Some g \<Rightarrow> if g \<noteq> [] then Some (trim g) else first_capture ps content))"

section \<open>The single-result parser (emailParser.js)\<close>

text \<open>
  Dates are instants, in milliseconds since the epoch. The date library (chrono-node) is
  not part of the repository: its \<open>parse\<close> function is a parameter of the model. The
  source calls \<open>chrono.parse(content)\<close> without a reference date, so the library reads
  the clock; the first argument of the parameter is that clock. A parsed result carries
  its date, the matched text and whether it has tags.
\<close>

type_synonym timestamp = int

record ParsedResult =
  pr_date :: timestamp
  pr_text :: jsstring
  pr_tags :: bool

type_synonym chrono = "timestamp \<Rightarrow> jsstring \<Rightarrow> ParsedResult list"

datatype EmailType = trialStart | trialEnd | billing | cancellation | priceChange | unknown

text \<open>\<open>(starts?|begins?)\<close> and the like.\<close>

definition opt_s :: "string \<Rightarrow> rx" where
  "opt_s w = Seq (liti w) (Opt (liti ''s''))"

text \<open>\<open>cancelled?\<close>\<close>

definition cancelled_opt :: rx where
  "cancelled_opt = Seq (liti ''cancelle'') (Opt (liti ''d''))"

definition SUBSCRIPTION_PATTERNS :: "(EmailType \<times> rx list) list" where
  "SUBSCRIPTION_PATTERNS =
    [(trialStart,
       [near [liti ''trial'',
              Grp (alts [opt_s ''start'', opt_s ''begin'', liti ''activated'', liti ''live''])],
        near [liti ''free'', liti ''trial'', Grp (alts [opt_s ''start'', opt_s ''begin''])],
        seqs [Grp (plus digit), Many 0 (Some 1) dashSpace, opt_s ''day'', upto 20 dot,
              liti ''free''],
        near [liti ''start'', liti ''your'', liti ''trial'']]),
     (trialEnd,
       [near [liti ''trial'',
              Grp (alts [opt_s ''end'', opt_s ''expire'', liti ''expiring'', liti ''ending''])],
        near [liti ''trial'', liti ''will'', Grp (alts [liti ''end'', liti ''expire''])],
        near [Grp (plus digit), opt_s ''day'', liti ''left'', liti ''trial''],
        near [liti ''trial'', liti ''period'', Grp (alts [opt_s ''end'', opt_s ''expire''])]]),
     (billing,
       [near [Seq (liti ''bill'') (Opt (liti ''ing'')),
              Grp (alts [liti ''date'', liti ''cycle'', liti ''period''])],
        near [liti ''next'', Grp (alts [liti ''payment'', liti ''charge'', liti ''bill''])],
        near [liti ''subscription'', liti ''renew''],
        seqs [liti ''auto'', Many 0 (Some 1) dashSpace, liti ''renew''],
        near [liti ''recurring'', Grp (alts [liti ''payment'', liti ''charge''])]]),
     (cancellation,
       [near [liti ''subscription'', Grp (alts [cancelled_opt, liti ''terminated''])],
        near [cancelled_opt, liti ''your'', liti ''subscription''],
        near [liti ''no'', liti ''longer'', liti ''subscribed''],
        near [liti ''membership'', Grp (alts [cancelled_opt, liti ''ended''])]]),
     (priceChange,
       [near [liti ''price'', Grp (alts [liti ''change'', liti ''increase'', liti ''update''])],
        near [liti ''new'', liti ''pricing''],
        near [liti ''rate'', Grp (alts [liti ''change'', liti ''increase''])],
        near [liti ''billing'', liti ''amount'', Grp (alts [liti ''change'', liti ''update''])]])]"

text \<open>\<open>(\d+(?:\.\d{2})?)\<close>\<close>

definition amount_group :: rx where
  "amount_group = Grp (Seq (plus digit) (Opt (Seq (chr CHR ''.'') (exactly 2 digit))))"

definition AMOUNT_PATTERNS :: "rx list" where
  "AMOUNT_PATTERNS =
    [seqs [chr CHR ''$'', star space, amount_group],
     seqs [liti ''USD'', star space, amount_group],
     seqs [amount_group, star space, liti ''USD''],
     seqs [Atom (is_cu EURO), star space, amount_group],
     seqs [Atom (is_cu POUND), star space, amount_group]]"

definition SERVICE_NAME_PATTERNS :: "rx list" where
  "SERVICE_NAME_PATTERNS =
    [joined (plus space)
       [liti ''thank'', liti ''you'', liti ''for'',
        Alt (liti ''subscribing'') (joined (plus space) [liti ''signing'', liti ''up'']),
        Alt (liti ''to'') (liti ''for''),
        Grp (plus alnumSpace)],
     joined (plus space)
       [liti ''your'', Grp (plus alnumSpace),
        alts [liti ''subscription'', liti ''membership'', liti ''account'']],
     joined (plus space) [liti ''welcome'', liti ''to'', Grp (plus alnumSpace)]]"

text \<open>
  The email object of this parser. \<open>e_date\<close> is the instant of \<open>email.date\<close>, absent
  when the object has no date.
\<close>

record LegacyEmail =
  e_from :: jsstring
  e_subject :: jsstring
  e_body :: jsstring
  e_date :: "timestamp option"

text \<open>\<open>email.subject + ' ' + email.body\<close>\<close>

definition subject_body :: "LegacyEmail \<Rightarrow> jsstring" where
  "subject_body email = e_subject email @ js '' '' @ e_body email"

definition detectEmailType :: "LegacyEmail \<Rightarrow> EmailType" where
  "detectEmailType emailContent =
     (let content = subject_body emailContent
      in case find (\<lambda>(ty, patterns). list_ex (\<lambda>pattern. test pattern content) patterns)
                SUBSCRIPTION_PATTERNS of
           Some (ty, patterns) \<Rightarrow> ty
         | None \<Rightarrow> unknown)"

definition genericDomains :: "jsstring list" where
  "genericDomains = map js [''gmail'', ''yahoo'', ''outlook'', ''hotmail'', ''mail'',
     ''email'', ''noreply'', ''no-reply'']"

definition extractFromDomain :: "jsstring \<Rightarrow> jsstring" where
  "extractFromDomain emailAddress =
     (if emailAddress = [] then js ''unknown''
      else case search (Seq (chr CHR ''@'') (Grp (plus notPeriod))) emailAddress of
        None \<Rightarrow> js ''unknown''
      | Some mt \<Rightarrow>
          (let domain = toLowerCase (case group1 mt of Some g \<Rightarrow> g | None \<Rightarrow> [])
           in if domain \<in> set genericDomains
              then (case search (seqs [chr CHR ''@'', Grp (plus dot), Eos]) emailAddress of
                      None \<Rightarrow> js ''unknown''
                    | Some fullDomainMatch \<Rightarrow>
                        (case find (\<lambda>part. toLowerCase part \<notin> set genericDomains \<and> length part > 2)
                                (split_on (cu CHR ''.'')
                                   (case group1 fullDomainMatch of Some g \<Rightarrow> g | None \<Rightarrow> [])) of
                           Some part \<Rightarrow> capitalize part
                         | None \<Rightarrow> js ''unknown''))
              else capitalize domain))"

definition extractServiceName_legacy :: "LegacyEmail \<Rightarrow> jsstring" where
  "extractServiceName_legacy email =
     (let content = subject_body email
      in case first_capture SERVICE_NAME_PATTERNS content of
           Some name \<Rightarrow> name
         | None \<Rightarrow>
             (let domain = extractFromDomain (e_from email)
              in if domain \<noteq> [] \<and> domain \<noteq> js ''unknown'' then domain
                 else (case find (\<lambda>word. length word > 3 \<and> exec_at (Atom upperAZ) word \<noteq> None)
                              (split_ws (e_subject email)) of
                         Some word \<Rightarrow> word
                       | None \<Rightarrow> js ''Unknown Service'')))"

record ExtractedDate =
  ed_date :: timestamp
  ed_text :: jsstring
  ed_confidence :: rat

definition extractDates :: "chrono \<Rightarrow> timestamp \<Rightarrow> jsstring \<Rightarrow> ExtractedDate list" where
  "extractDates chrono_parse now content =
     map (\<lambda>d. \<lparr>ed_date = pr_date d, ed_text = pr_text d,
               ed_confidence = (if pr_tags d then 1 else 8 / 10)\<rparr>)
         (chrono_parse now content)"

text \<open>\<open>/trial.{0,100}(end|expire).{0,100}/gi\<close>\<close>

definition trialEndSection_pattern :: rx where
  "trialEndSection_pattern =
     seqs [liti ''trial'', upto 100 dot, Grp (Alt (liti ''end'') (liti ''expire'')), upto 100 dot]"

text \<open>
  \<open>content.match\<close> with a \<open>g\<close> pattern gives the texts of all matches; only the first,
  \<open>trialEndSection[0]\<close>, is read: the text of the leftmost match. \<open>now\<close> is the clock
  read by \<open>Date.now()\<close>.
\<close>

definition extractTrialEndDate :: "chrono \<Rightarrow> timestamp \<Rightarrow> LegacyEmail \<Rightarrow> timestamp option" where
  "extractTrialEndDate chrono_parse now email =
     (let content = subject_body email;
          sectionDates = (case search trialEndSection_pattern content of
                            None \<Rightarrow> []
                          | Some trialEndSection \<Rightarrow>
                              extractDates chrono_parse now (whole trialEndSection))
      in case sectionDates of
           d # ds \<Rightarrow> Some (ed_date d)
         | [] \<Rightarrow>
             (let allDates = extractDates chrono_parse now content;
                  emailDate = (case e_date email of Some t \<Rightarrow> t | None \<Rightarrow> now);
                  futureDates = filter (\<lambda>d. ed_date d > emailDate) allDates
              in case futureDates of
                   d # ds \<Rightarrow> Some (ed_date d)
                 | [] \<Rightarrow> None))"

text \<open>
  The loop \<open>while ((match = pattern.exec(content)) !== null)\<close> on a pattern with the
  \<open>g\<close> flag: each search starts where the last match ended. A match of no code unit
  would leave \<open>lastIndex\<close> in place and the source loop would not end; the model stops
  there. No amount pattern has such a match (lemma \<open>amount_pattern_progress\<close> below).
\<close>

function exec_loop :: "rx \<Rightarrow> jsstring \<Rightarrow> Match list" where
  "exec_loop pattern s =
     (case search pattern s of
        None \<Rightarrow> []
      | Some mt \<Rightarrow>
          if length (after mt) < length s then mt # exec_loop pattern (after mt) else [])"
  by pat_completeness auto
termination
  by (relation "measure (\<lambda>(pattern, s). length s)") auto

text \<open>The amounts one pattern contributes: \<open>parseFloat(match[1])\<close>, kept when in range.\<close>

definition pattern_amounts :: "rx \<Rightarrow> jsstring \<Rightarrow> rat list" where
  "pattern_amounts pattern content =
     concat (map (\<lambda>mt. case (case group1 mt of Some g \<Rightarrow> parseFloat g | None \<Rightarrow> None) of
                          None \<Rightarrow> []
                        | Some amount \<Rightarrow> if amount > 0 \<and> amount < 10000 then [amount] else [])
                 (exec_loop pattern content))"

text \<open>\<open>[...new Set(amounts)]\<close>: the distinct values, in the order of their first occurrence.\<close>

definition uniqueOf :: "'a list \<Rightarrow> 'a list" where
  "uniqueOf xs = foldl (\<lambda>acc x. if x \<in> set acc then acc else acc @ [x]) [] xs"

text \<open>
  The loop of \<open>findMode\<close>, with its three variables: the frequency table, \<open>maxFreq\<close> and
  \<open>mode\<close>.
\<close>

fun findMode_loop :: "rat list \<Rightarrow> (rat \<rightharpoonup> nat) \<Rightarrow> nat \<Rightarrow> rat option \<Rightarrow> nat \<times> rat option" where
  "findMode_loop [] frequency maxFreq mode = (maxFreq, mode)"
| "findMode_loop (num # numbers) frequency maxFreq mode =
     (let f = (case frequency num of Some n \<Rightarrow> n | None \<Rightarrow> 0) + 1;
          frequency' = frequency(num \<mapsto> f)
      in if f > maxFreq then findMode_loop numbers frequency' f (Some num)
         else findMode_loop numbers frequency' maxFreq mode)"

definition findMode :: "rat list \<Rightarrow> rat option" where
  "findMode numbers =
     (case findMode_loop numbers Map.empty 0 None of
        (maxFreq, mode) \<Rightarrow> if maxFreq > 1 then mode else None)"

text \<open>
  The choice of \<open>extractAmount\<close> among the amounts found. \<open>amounts.sort\<close> sorts in place,
  so the mode and the middle element are taken from the sorted list. \<open>if (mode)\<close> is
  false for \<open>null\<close> and for the number 0.
\<close>

definition chooseAmount :: "rat list \<Rightarrow> rat option" where
  "chooseAmount found =
     (if found = [] then None
      else let amounts = sort found;
               uniqueAmounts = uniqueOf amounts
           in if length uniqueAmounts = 1 then at_index uniqueAmounts 0
              else (case findMode amounts of
                      Some mode \<Rightarrow> if mode \<noteq> 0 then Some mode
                                   else at_index amounts (length amounts div 2)
                    | None \<Rightarrow> at_index amounts (length amounts div 2)))"

definition foundAmounts :: "jsstring \<Rightarrow> rat list" where
  "foundAmounts content = concat (map (\<lambda>pattern. pattern_amounts pattern content) AMOUNT_PATTERNS)"

definition extractAmount :: "LegacyEmail \<Rightarrow> rat option" where
  "extractAmount email = chooseAmount (foundAmounts (subject_body email))"

record ExtractedData =
  x_type :: EmailType
  x_serviceName :: jsstring
  x_trialEndDate :: "timestamp option"
  x_billingAmount :: "rat option"

definition countPatternMatches :: "LegacyEmail \<Rightarrow> nat" where
  "countPatternMatches email =
     (let content = subject_body email
      in length (filter (\<lambda>pattern. test pattern content)
                   (concat (map snd SUBSCRIPTION_PATTERNS))))"

text \<open>
  The scorer of this parser: five additive steps, threaded through \<open>(confidence, factors)\<close>.
  A date object is always true in a condition; a number is true unless it is 0.
\<close>

definition bump :: "bool \<Rightarrow> rat \<Rightarrow> rat \<times> nat \<Rightarrow> rat \<times> nat" where
  "bump cond w cf = (if cond then (fst cf + w, snd cf + 1) else cf)"

definition calculateConfidence_legacy :: "LegacyEmail \<Rightarrow> ExtractedData \<Rightarrow> rat" where
  "calculateConfidence_legacy email extractedData =
     (let cf0 = (0, 0);
          cf1 = bump (x_type extractedData \<noteq> unknown) (3 / 10) cf0;
          cf2 = bump (x_serviceName extractedData \<noteq> js ''Unknown Service'') (2 / 10) cf1;
          cf3 = bump (x_trialEndDate extractedData \<noteq> None) (2 / 10) cf2;
          cf4 = bump (case x_billingAmount extractedData of Some a \<Rightarrow> a \<noteq> 0 | None \<Rightarrow> False)
                  (2 / 10) cf3;
          hasMultiplePatternMatches = (countPatternMatches email > 2);
          cf5 = bump hasMultiplePatternMatches (1 / 10) cf4
      in if snd cf5 > 0 then fst cf5 else 0)"

datatype error = Error string

record Metadata =
  md_emailDate :: timestamp
  md_from :: jsstring
  md_subject :: jsstring

record ParsedEmail =
  p_type :: EmailType
  p_serviceName :: jsstring
  p_trialEndDate :: "timestamp option"
  p_billingAmount :: "rat option"
  p_confidence :: rat
  p_metadata :: Metadata

text \<open>
  \<open>parseSubscriptionEmail\<close> throws when subject and body are both empty; the exception is
  the \<open>Inl\<close> value.
\<close>

definition parseSubscriptionEmail :: "chrono \<Rightarrow> timestamp \<Rightarrow> LegacyEmail \<Rightarrow> error + ParsedEmail" where
  "parseSubscriptionEmail chrono_parse now email =
     (if e_subject email = [] \<and> e_body email = []
      then Inl (Error ''Invalid email object: must have subject or body'')
      else let ty = detectEmailType email;
               serviceName = extractServiceName_legacy email;
               trialEndDate = extractTrialEndDate chrono_parse now email;
               billingAmount = extractAmount email;
               extractedData = \<lparr>x_type = ty, x_serviceName = serviceName,
                                x_trialEndDate = trialEndDate, x_billingAmount = billingAmount\<rparr>;
               confidence = calculateConfidence_legacy email extractedData
           in Inr \<lparr>p_type = ty, p_serviceName = serviceName, p_trialEndDate = trialEndDate,
                   p_billingAmount = billingAmount, p_confidence = confidence,
                   p_metadata = \<lparr>md_emailDate = (case e_date email of Some t \<Rightarrow> t | None \<Rightarrow> now),
                                  md_from = e_from email, md_subject = e_subject email\<rparr>\<rparr>)"

section \<open>The multi-detection parser (class EmailSubscriptionParser)\<close>

record EmailData =
  em_from :: jsstring
  em_to :: jsstring
  em_subject :: jsstring
  em_bodyText :: "jsstring option"
  em_bodyHtml :: "jsstring option"
  em_receivedAt :: timestamp
  em_messageId :: "jsstring option"
  em_headers :: "(jsstring \<times> jsstring) list"

datatype DetectionType =
  trial_signup | trial_reminder | billing_confirmation | subscription_start | price_change

text \<open>\<open>extractedData\<close> of a detection is the object \<open>{ rawContent: ... }\<close>.\<close>

record DetectedSubscription =
  serviceName :: jsstring
  detectionType :: DetectionType
  confidence :: rat
  cost :: "rat option"
  currency :: "jsstring option"
  billingCycle :: "jsstring option"
  trialEndDate :: "timestamp option"
  nextBillingDate :: "timestamp option"
  rawContent :: jsstring

definition TRIAL_SIGNUP_PATTERNS :: "rx list" where
  "TRIAL_SIGNUP_PATTERNS =
    [words [''welcome'', ''trial''],
     words [''trial'', ''started''],
     words [''free'', ''trial'', ''activated''],
     words [''trial'', ''period'', ''begins''],
     words [''start'', ''your'', ''trial''],
     words [''trial'', ''subscription'', ''created''],
     seqs [Grp (plus digit), star dashSpace, opt_s ''day'', star dot, liti ''free'']]"

definition TRIAL_REMINDER_PATTERNS :: "rx list" where
  "TRIAL_REMINDER_PATTERNS =
    [seqs [liti ''trial'', star dot, liti ''end'', Alt (liti ''s'') (liti ''ing'')],
     seqs [liti ''trial'', star dot, liti ''expir'', Alt (liti ''es'') (liti ''ing'')],
     joined (star dot) [Grp (plus digit), opt_s ''day'', liti ''left'', liti ''trial''],
     words [''trial'', ''will'', ''end''],
     words [''subscription'', ''will'', ''begin''],
     words [''trial'', ''period'', ''ending'']]"

definition BILLING_CONFIRMATION_PATTERNS :: "rx list" where
  "BILLING_CONFIRMATION_PATTERNS =
    [words [''payment'', ''successful''],
     words [''subscription'', ''renewed''],
     words [''billing'', ''confirmation''],
     words [''receipt'', ''for'', ''subscription''],
     words [''charged'', ''for'', ''subscription''],
     words [''payment'', ''processed''],
     words [''invoice'', ''for'', ''subscription'']]"

definition SUBSCRIPTION_START_PATTERNS :: "rx list" where
  "SUBSCRIPTION_START_PATTERNS =
    [words [''subscription'', ''activated''],
     words [''welcome'', ''subscriber''],
     words [''subscription'', ''started''],
     words [''membership'', ''activated''],
     words [''account'', ''upgraded''],
     words [''premium'', ''activated'']]"

definition PRICE_CHANGE_PATTERNS :: "rx list" where
  "PRICE_CHANGE_PATTERNS =
    [words [''price'', ''change''],
     words [''pricing'', ''update''],
     words [''subscription'', ''cost'', ''chang''],
     words [''new'', ''pricing''],
     words [''rate'', ''increase''],
     words [''billing'', ''amount'', ''chang'']]"

definition SPAM_PATTERNS :: "rx list" where
  "SPAM_PATTERNS =
    [words [''unsubscribe'', ''here''],
     words [''click'', ''here'', ''now''],
     words [''limited'', ''time'', ''offer''],
     words [''act'', ''now''],
     words [''congratulations'', ''you'', ''won''],
     words [''claim'', ''your'', ''prize'']]"

definition COMMON_SUBSCRIPTION_SERVICES :: "jsstring list" where
  "COMMON_SUBSCRIPTION_SERVICES = map js
    [''netflix'', ''spotify'', ''amazon'', ''apple'', ''google'', ''microsoft'', ''adobe'',
     ''dropbox'', ''slack'', ''zoom'', ''salesforce'', ''hubspot'', ''mailchimp'',
     ''canva'', ''figma'', ''notion'', ''airtable'', ''calendly'', ''loom'', ''discord'',
     ''twitch'', ''youtube'', ''hulu'', ''disney'', ''hbo'', ''paramount'', ''peacock'',
     ''github'', ''gitlab'', ''vercel'', ''netlify'', ''heroku'', ''digitalocean'']"

text \<open>\<open>x || ''\<close> for an optional string.\<close>

definition or_empty :: "jsstring option \<Rightarrow> jsstring" where
  "or_empty x = (case x of Some s \<Rightarrow> s | None \<Rightarrow> [])"

definition getEmailContent :: "EmailData \<Rightarrow> jsstring" where
  "getEmailContent emailData =
     em_subject emailData @ js '' '' @ or_empty (em_bodyText emailData) @ js '' ''
       @ or_empty (em_bodyHtml emailData)"

text \<open>\<open>from.split('@')[1]?.toLowerCase()\<close>\<close>

definition sender_domain :: "jsstring \<Rightarrow> jsstring option" where
  "sender_domain sender = map_option toLowerCase (at_index (split_on (cu CHR ''@'') sender) 1)"

definition suspiciousDomains :: "jsstring list" where
  "suspiciousDomains = map js [''tempmail'', ''guerrillamail'', ''10minutemail'']"

definition isSpamEmail :: "jsstring \<Rightarrow> jsstring \<Rightarrow> bool" where
  "isSpamEmail content sender =
     (if list_ex (\<lambda>pattern. test pattern content) SPAM_PATTERNS then True
      else let domain = sender_domain sender
           in list_ex (\<lambda>suspicious. case domain of
                                       Some d \<Rightarrow> includes_str d suspicious
                                     | None \<Rightarrow> False)
                      suspiciousDomains)"

text \<open>\<open>.replace(/^(mail\.|noreply\.|no-reply\.)/, '')\<close>: the pattern is tried at the start only.\<close>

definition strip_mail_prefix :: "jsstring \<Rightarrow> jsstring" where
  "strip_mail_prefix d =
     (case exec_at (Grp (alts [lit ''mail.'', lit ''noreply.'', lit ''no-reply.''])) d of
        Some mt \<Rightarrow> after mt
      | None \<Rightarrow> d)"

definition servicePatterns :: "rx list" where
  "servicePatterns =
    [Seq (liti ''thank you for subscribing to '') (Grp (plus alnumSpace)),
     Seq (liti ''welcome to '') (Grp (plus alnumSpace)),
     seqs [liti ''your '', Grp (plus alnumSpace), liti '' subscription''],
     Seq (Grp (plus alnumSpace)) (liti '' membership'')]"

text \<open>The result is \<open>None\<close> for \<open>null\<close>; it can be the empty string.\<close>

definition extractServiceName :: "jsstring \<Rightarrow> jsstring \<Rightarrow> jsstring option" where
  "extractServiceName sender content =
     (let domain = map_option strip_mail_prefix (sender_domain sender);
          fromContent = first_capture servicePatterns content
      in case domain of
           None \<Rightarrow> fromContent
         | Some d \<Rightarrow>
             if d = [] then fromContent
             else (case find (\<lambda>service. includes_str d service) COMMON_SUBSCRIPTION_SERVICES of
                     Some service \<Rightarrow> Some (capitalize service)
                   | None \<Rightarrow>
                       (case at_index (split_on (cu CHR ''.'') d) 0 of
                          Some companyName \<Rightarrow>
                            if companyName \<noteq> [] \<and> length companyName > 2
                            then Some (capitalize companyName)
                            else fromContent
                        | None \<Rightarrow> fromContent)))"

definition extractCurrency :: "jsstring \<Rightarrow> jsstring" where
  "extractCurrency text =
     (if includes_str text (js ''$'') \<or> includes_str text (js ''USD'') then js ''USD''
      else if includes_str text [EURO] \<or> includes_str text (js ''EUR'') then js ''EUR''
      else if includes_str text [POUND] \<or> includes_str text (js ''GBP'') then js ''GBP''
      else js ''USD'')"

definition costPatterns :: "rx list" where
  "costPatterns =
    [Seq (chr CHR ''$'') amount_group,
     seqs [amount_group, star space, liti ''USD''],
     Seq (Atom (is_cu EURO)) amount_group,
     Seq (Atom (is_cu POUND)) amount_group]"

text \<open>The sources of the cycle patterns; each is matched under the \<open>i\<close> flag.\<close>

definition cyclePatterns :: "string list" where
  "cyclePatterns = [''monthly'', ''quarterly'', ''annually'', ''yearly'', ''weekly'']"

text \<open>The fields \<open>extractSubscriptionData\<close> fills in.\<close>

record SubscriptionData =
  d_cost :: "rat option"
  d_currency :: "jsstring option"
  d_billingCycle :: "jsstring option"
  d_trialEndDate :: "timestamp option"

text \<open>
  The cost loop stops at the first pattern that matches. \<open>parseFloat\<close> of a text without
  a leading digit is \<open>NaN\<close>; the capture of a cost pattern always starts with a digit, and
  the model has no cost then.
\<close>

definition extractCost :: "jsstring \<Rightarrow> rat option \<times> jsstring option" where
  "extractCost content =
     (case List.map_filter (\<lambda>pattern. search pattern content) costPatterns of
        [] \<Rightarrow> (None, None)
      | mt # mts \<Rightarrow>
          ((case group1 mt of Some g \<Rightarrow> parseFloat g | None \<Rightarrow> None),
           Some (extractCurrency (whole mt))))"

text \<open>\<open>pattern.source.toLowerCase().replace('ly', '')\<close> of the first cycle pattern that matches.\<close>

definition extractCycle :: "jsstring \<Rightarrow> jsstring option" where
  "extractCycle content =
     (case find (\<lambda>source. test (liti source) content) cyclePatterns of
        Some source \<Rightarrow> Some (remove_first (js ''ly'') (toLowerCase (js source)))
      | None \<Rightarrow> None)"

text \<open>
  The date comes from \<open>parseSubscriptionEmail\<close> on an object with an empty sender, the
  first 100 code units of the content as subject, the content as body and no date; an
  exception of that call is caught and leaves the date out.
\<close>

definition extractSubscriptionData :: "chrono \<Rightarrow> timestamp \<Rightarrow> jsstring \<Rightarrow> SubscriptionData" where
  "extractSubscriptionData chrono_parse now content =
     (let (c, cur) = extractCost content;
          cycle = extractCycle content;
          emailObj = \<lparr>e_from = [], e_subject = take 100 content, e_body = content,
                      e_date = None\<rparr>;
          ted = (case parseSubscriptionEmail chrono_parse now emailObj of
                   Inr parsed \<Rightarrow> p_trialEndDate parsed
                 | Inl err \<Rightarrow> None)
      in \<lparr>d_cost = c, d_currency = cur, d_billingCycle = cycle, d_trialEndDate = ted\<rparr>)"

definition patterns_of :: "DetectionType \<Rightarrow> rx list" where
  "patterns_of ty =
     (case ty of
        trial_signup \<Rightarrow> TRIAL_SIGNUP_PATTERNS
      | trial_reminder \<Rightarrow> TRIAL_REMINDER_PATTERNS
      | billing_confirmation \<Rightarrow> BILLING_CONFIRMATION_PATTERNS
      | subscription_start \<Rightarrow> SUBSCRIPTION_START_PATTERNS
      | price_change \<Rightarrow> PRICE_CHANGE_PATTERNS)"

text \<open>The three signal patterns of the scorer.\<close>

definition cost_signal :: rx where
  "cost_signal =
     alts [Seq (chr CHR ''$'') (plus digit),
           seqs [plus digit, star dot, liti ''USD''],
           Seq (Atom (is_cu EURO)) (plus digit),
           Seq (Atom (is_cu POUND)) (plus digit)]"

definition cycle_signal :: rx where
  "cycle_signal = alts (map liti cyclePatterns)"

definition date_signal :: rx where
  "date_signal =
     alts ([seqs [Many 1 (Some 2) digit, chr CHR ''/'', Many 1 (Some 2) digit, chr CHR ''/'',
                  exactly 4 digit],
            seqs [exactly 4 digit, chr CHR ''-'', exactly 2 digit, chr CHR ''-'', exactly 2 digit]]
           @ map liti [''january'', ''february'', ''march'', ''april'', ''may'', ''june'', ''july'',
                       ''august'', ''september'', ''october'', ''november'', ''december''])"

definition calculateConfidence :: "jsstring \<Rightarrow> DetectionType \<Rightarrow> rat" where
  "calculateConfidence content ty =
     (let currentTypeMatches = length (filter (\<lambda>p. test p content) (patterns_of ty));
          c0 = 1 / 2 + of_nat currentTypeMatches * (1 / 10);
          c1 = (if test cost_signal content then c0 + 2 / 10 else c0);
          c2 = (if test cycle_signal content then c1 + 1 / 10 else c1);
          c3 = (if test date_signal content then c2 + 1 / 10 else c2)
      in min c3 1)"

text \<open>The five \<open>detect...\<close> methods differ in the pattern list and the type only.\<close>

definition detect :: "chrono \<Rightarrow> timestamp \<Rightarrow> DetectionType \<Rightarrow> jsstring \<Rightarrow> jsstring \<Rightarrow> DetectedSubscription option" where
  "detect chrono_parse now ty content name =
     (if list_ex (\<lambda>pattern. test pattern content) (patterns_of ty)
      then let extractedData = extractSubscriptionData chrono_parse now content
           in Some \<lparr>serviceName = name, detectionType = ty,
                    confidence = calculateConfidence content ty,
                    cost = d_cost extractedData, currency = d_currency extractedData,
                    billingCycle = d_billingCycle extractedData,
                    trialEndDate = d_trialEndDate extractedData,
                    nextBillingDate = None,
                    rawContent = take 500 content\<rparr>
      else None)"

definition detectTrialSignup :: "chrono \<Rightarrow> timestamp \<Rightarrow> jsstring \<Rightarrow> jsstring \<Rightarrow> DetectedSubscription option" where
  "detectTrialSignup chrono_parse now = detect chrono_parse now trial_signup"

definition detectTrialReminder :: "chrono \<Rightarrow> timestamp \<Rightarrow> jsstring \<Rightarrow> jsstring \<Rightarrow> DetectedSubscription option" where
  "detectTrialReminder chrono_parse now = detect chrono_parse now trial_reminder"

definition detectBillingConfirmation :: "chrono \<Rightarrow> timestamp \<Rightarrow> jsstring \<Rightarrow> jsstring \<Rightarrow> DetectedSubscription option" where
  "detectBillingConfirmation chrono_parse now = detect chrono_parse now billing_confirmation"

definition detectSubscriptionStart :: "chrono \<Rightarrow> timestamp \<Rightarrow> jsstring \<Rightarrow> jsstring \<Rightarrow> DetectedSubscription option" where
  "detectSubscriptionStart chrono_parse now = detect chrono_parse now subscription_start"

definition detectPriceChange :: "chrono \<Rightarrow> timestamp \<Rightarrow> jsstring \<Rightarrow> jsstring \<Rightarrow> DetectedSubscription option" where
  "detectPriceChange chrono_parse now = detect chrono_parse now price_change"

text \<open>\<open>if (x) detections.push(x)\<close>\<close>

definition push :: "'a list \<Rightarrow> 'a option \<Rightarrow> 'a list" where
  "push xs x = (case x of Some v \<Rightarrow> xs @ [v] | None \<Rightarrow> xs)"

text \<open>
  \<open>parseEmail\<close> is asynchronous: its promise is fulfilled with the detections (\<open>Inr\<close>) or
  rejected with an exception (\<open>Inl\<close>). No statement of its body throws: the one
  exception of the call tree is caught in \<open>extractSubscriptionData\<close>.
\<close>

definition parseEmail :: "chrono \<Rightarrow> timestamp \<Rightarrow> EmailData \<Rightarrow> error + DetectedSubscription list" where
  "parseEmail chrono_parse now emailData =
     (let content = getEmailContent emailData
      in if isSpamEmail content (em_from emailData) then Inr []
         else (case extractServiceName (em_from emailData) content of
                 None \<Rightarrow> Inr []
               | Some name \<Rightarrow>
                   if name = [] then Inr []
                   else let d1 = push [] (detectTrialSignup chrono_parse now content name);
                            d2 = push d1 (detectTrialReminder chrono_parse now content name);
                            d3 = push d2 (detectBillingConfirmation chrono_parse now content name);
                            d4 = push d3 (detectSubscriptionStart chrono_parse now content name);
                            d5 = push d4 (detectPriceChange chrono_parse now content name)
                        in Inr d5))"

section \<open>Properties stated by the specification\<close>

text \<open>
  The words of the specification on the monotonicity of the scorer speak of extractable
  signals: an amount the cost extractor finds, a billing cycle the cycle extractor finds, a
  date the date extractor finds, and the matching patterns of the type.
  \<open>preserves_extractable_signals chrono_parse now ty c c'\<close>: every such signal of \<open>c\<close> is a
  signal of \<open>c'\<close>.
\<close>

definition preserves_extractable_signals ::
    "chrono \<Rightarrow> timestamp \<Rightarrow> DetectionType \<Rightarrow> jsstring \<Rightarrow> jsstring \<Rightarrow> bool" where
  "preserves_extractable_signals chrono_parse now ty c c' =
     (list_all (\<lambda>p. test p c \<longrightarrow> test p c') (patterns_of ty)
      \<and> (d_cost (extractSubscriptionData chrono_parse now c) \<noteq> None
           \<longrightarrow> d_cost (extractSubscriptionData chrono_parse now c') \<noteq> None)
      \<and> (d_billingCycle (extractSubscriptionData chrono_parse now c) \<noteq> None
           \<longrightarrow> d_billingCycle (extractSubscriptionData chrono_parse now c') \<noteq> None)
      \<and> (d_trialEndDate (extractSubscriptionData chrono_parse now c) \<noteq> None
           \<longrightarrow> d_trialEndDate (extractSubscriptionData chrono_parse now c') \<noteq> None))"

text \<open>
  What the scorer itself tests for a detection type: each pattern of the type, and its own
  cost, billing-cycle and date patterns (\<open>cost_signal\<close>, \<open>cycle_signal\<close>, \<open>date_signal\<close>),
  which are not the patterns of the extractors. \<open>preserves_scorer_signals ty c c'\<close>: every
  test of the scorer that succeeds on \<open>c\<close> succeeds on \<open>c'\<close>.
\<close>

definition preserves_scorer_signals :: "DetectionType \<Rightarrow> jsstring \<Rightarrow> jsstring \<Rightarrow> bool" where
  "preserves_scorer_signals ty c c' =
     (list_all (\<lambda>p. test p c \<longrightarrow> test p c') (patterns_of ty)
      \<and> (test cost_signal c \<longrightarrow> test cost_signal c')
      \<and> (test cycle_signal c \<longrightarrow> test cycle_signal c')
      \<and> (test date_signal c \<longrightarrow> test date_signal c'))"

section \<open>Inputs of the examples\<close>

text \<open>
  A date library for the examples. It knows the phrases of a table: for every place of the
  text where a phrase of the table starts, in the order of the text, it gives the instant
  the table lists for the phrase. The phrases name full dates, so the clock is not read.
\<close>

fun dates_at :: "(jsstring \<times> timestamp) list \<Rightarrow> jsstring \<Rightarrow> ParsedResult list" where
  "dates_at table [] = []"
| "dates_at table (c # cs) =
     map (\<lambda>(phrase, t). \<lparr>pr_date = t, pr_text = phrase, pr_tags = True\<rparr>)
         (filter (\<lambda>(phrase, t). startsWith (c # cs) phrase) table)
     @ dates_at table cs"

definition calendar :: "(string \<times> timestamp) list \<Rightarrow> chrono" where
  "calendar table now text = dates_at (map (\<lambda>(phrase, t). (js phrase, t)) table) text"

text \<open>The first end-to-end scenario of the specification.\<close>

definition netflix_email :: EmailData where
  "netflix_email =
     \<lparr>em_from = js ''billing@netflix.com'', em_to = js ''user@example.com'',
      em_subject = js ''Your Netflix subscription has been renewed'',
      em_bodyText = Some (js ''Your Netflix subscription has been renewed for $15.99/month. Next billing date is January 27, 2025.''),
      em_bodyHtml = None, em_receivedAt = 1735689600000, em_messageId = None,
      em_headers = []\<rparr>"

definition netflix_content :: jsstring where
  "netflix_content = js ''Your Netflix subscription has been renewed Your Netflix subscription has been renewed for $15.99/month. Next billing date is January 27, 2025. ''"

text \<open>The object \<open>extractSubscriptionData\<close> hands to \<open>parseSubscriptionEmail\<close> for that message.\<close>

definition netflix_emailObj :: LegacyEmail where
  "netflix_emailObj =
     \<lparr>e_from = [], e_subject = take 100 netflix_content, e_body = netflix_content,
      e_date = None\<rparr>"

text \<open>27 January 2025, 12:00 UTC; the starts of 2025 and of 2026.\<close>

definition jan_27_2025 :: timestamp where "jan_27_2025 = 1737979200000"
definition start_2025 :: timestamp where "start_2025 = 1735689600000"
definition start_2026 :: timestamp where "start_2026 = 1767225600000"

definition netflix_calendar :: chrono where
  "netflix_calendar = calendar [(''January 27, 2025'', 1737979200000)]"

text \<open>The detection the parser returns for the message, up to the trial end date.\<close>

definition netflix_detection :: "timestamp option \<Rightarrow> DetectedSubscription" where
  "netflix_detection ted =
     \<lparr>serviceName = js ''Netflix'', detectionType = billing_confirmation,
      confidence = 9 / 10, cost = Some (1599 / 100), currency = Some (js ''USD''),
      billingCycle = None, trialEndDate = ted, nextBillingDate = None,
      rawContent = netflix_content\<rparr>"

text \<open>The third end-to-end scenario of the specification.\<close>

definition spam_email :: EmailData where
  "spam_email =
     \<lparr>em_from = js ''promo@dealsnow.biz'', em_to = js ''user@example.com'',
      em_subject = js ''Congratulations you won a free trial!! Act now!'',
      em_bodyText = None, em_bodyHtml = None, em_receivedAt = 1735689600000,
      em_messageId = None, em_headers = []\<rparr>"

definition spam_content :: jsstring where
  "spam_content = js ''Congratulations you won a free trial!! Act now!  ''"

text \<open>Two contents that differ in a cost and a billing cycle.\<close>

definition plain_content :: jsstring where
  "plain_content = js ''payment processed''"

definition richer_content :: jsstring where
  "richer_content = js ''payment processed: $5 monthly''"

text \<open>
  A content on which the cost test of the scorer succeeds and the cost extractor finds
  nothing, and a content with a billing cycle instead.
\<close>

definition apples_content :: jsstring where
  "apples_content = js ''payment processed 5 apples USD''"

definition cycle_content :: jsstring where
  "cycle_content = js ''payment processed monthly''"

text \<open>A message with no subject and no body.\<close>

definition empty_email :: EmailData where
  "empty_email =
     \<lparr>em_from = js ''billing@netflix.com'', em_to = js ''user@example.com'',
      em_subject = [], em_bodyText = None, em_bodyHtml = Some [],
      em_receivedAt = 1735689600000, em_messageId = None, em_headers = []\<rparr>"

definition empty_legacy_email :: LegacyEmail where
  "empty_legacy_email = \<lparr>e_from = js ''billing@netflix.com'', e_subject = [], e_body = [],
     e_date = None\<rparr>"

text \<open>
  The words of the specification on the choice of an amount. A mode of a list is a member
  that no member occurs more often than. The median of the distinct amounts is the middle
  one of the sorted list when their number is odd, and the mean of the two middle ones
  when it is even. \<open>middle_of\<close> is the element at index \<open>floor(n / 2)\<close> of the sorted
  distinct amounts.
\<close>

definition is_mode :: "rat list \<Rightarrow> rat \<Rightarrow> bool" where
  "is_mode xs v = (v \<in> set xs \<and> list_all (\<lambda>x. count_list xs x \<le> count_list xs v) xs)"

definition median_of :: "rat list \<Rightarrow> rat" where
  "median_of xs =
     (let ys = sort (remdups xs); n = length ys
      in if odd n then ys ! (n div 2) else (ys ! (n div 2 - 1) + ys ! (n div 2)) / 2)"

definition middle_of :: "rat list \<Rightarrow> rat" where
  "middle_of xs = sort (remdups xs) ! (length (remdups xs) div 2)"

text \<open>Emails with a repeated amount, with two amounts and with one amount.\<close>

definition repeated_email :: LegacyEmail where
  "repeated_email = \<lparr>e_from = [], e_subject = js ''Receipt'',
     e_body = js ''$5 now, then $10, then $5'', e_date = None\<rparr>"

definition two_amounts_email :: LegacyEmail where
  "two_amounts_email = \<lparr>e_from = [], e_subject = js ''Receipt'',
     e_body = js ''$5 now, then $10'', e_date = None\<rparr>"

definition one_amount_email :: LegacyEmail where
  "one_amount_email = \<lparr>e_from = [], e_subject = js ''Receipt'',
     e_body = js ''$5 now'', e_date = None\<rparr>"

definition no_amount_email :: LegacyEmail where
  "no_amount_email = \<lparr>e_from = [], e_subject = js ''Receipt'',
     e_body = js ''thanks'', e_date = None\<rparr>"

text \<open>
  The words of the specification on the second date strategy: the earliest of the dates
  strictly later than a reference instant.
\<close>

definition earliest_after :: "timestamp \<Rightarrow> timestamp list \<Rightarrow> timestamp option" where
  "earliest_after ref dates =
     (case filter (\<lambda>d. d > ref) dates of
        [] \<Rightarrow> None
      | d # ds \<Rightarrow> Some (fold min ds d))"

text \<open>The reference instant of \<open>extractTrialEndDate\<close>: \<open>new Date(email.date || Date.now())\<close>.\<close>

definition reference_instant :: "timestamp \<Rightarrow> LegacyEmail \<Rightarrow> timestamp" where
  "reference_instant now email = (case e_date email of Some t \<Rightarrow> t | None \<Rightarrow> now)"

text \<open>
  An email whose later date comes first in the text (5 March 2030 and 1 February 2030,
  both at 12:00 UTC; the email is dated 1 January 2026), and the email of the second
  end-to-end scenario (1 March 2025, 12:00 UTC; the email is dated 26 February 2025).
\<close>

definition renewal_email :: LegacyEmail where
  "renewal_email = \<lparr>e_from = js ''billing@acmeapp.io'', e_subject = js ''Renewal notice'',
     e_body = js ''Renews March 5, 2030. Offer until February 1, 2030.'',
     e_date = Some 1767225600000\<rparr>"

definition renewal_calendar :: chrono where
  "renewal_calendar = calendar [(''March 5, 2030'', 1898942400000),
                                (''February 1, 2030'', 1896177600000)]"

definition trial_email :: LegacyEmail where
  "trial_email = \<lparr>e_from = js ''trial@acmeapp.io'',
     e_subject = js ''Your free trial ends in 3 days'',
     e_body = js ''Your trial ends on March 1, 2025. Then you are billed $9.99 monthly.'',
     e_date = Some 1740528000000\<rparr>"

definition trial_calendar :: chrono where
  "trial_calendar = calendar [(''March 1, 2025'', 1740830400000)]"



text \<open>The count a frequency table of \<open>findMode\<close> holds for a number.\<close>

definition cnt :: "(rat \<rightharpoonup> nat) \<Rightarrow> rat \<Rightarrow> nat" where
  "cnt fr x = (case fr x of Some n \<Rightarrow> n | None \<Rightarrow> 0)"

text \<open>
  The least number of code units a match of a pattern takes, and of a stack of frames.
\<close>

fun minlen :: "rx \<Rightarrow> nat" where
  "minlen Eps = 0"
| "minlen (Atom p) = 1"
| "minlen (Seq a b) = minlen a + minlen b"
| "minlen (Alt a b) = min (minlen a) (minlen b)"
| "minlen (Opt a) = 0"
| "minlen (Many lo hi p) = lo"
| "minlen (Grp a) = minlen a"
| "minlen Eos = 0"

fun fminlen :: "frame \<Rightarrow> nat" where
  "fminlen (Rx r) = minlen r"
| "fminlen (Close s0) = 0"

section \<open>Evaluation\<close>

text \<open>
  The matcher is run on concrete inputs in two steps: the patterns and the input are
  brought to normal form first, then the equations of \<open>run\<close> and \<open>search\<close> are applied.
\<close>

declare run.simps [simp del] search.simps [simp del] exec_loop.simps [simp del]

lemma is_ci_eval:
  "is_ci x c = (c = x \<or> (97 \<le> x \<and> x \<le> 122 \<and> c + 32 = x) \<or> (65 \<le> x \<and> x \<le> 90 \<and> c = x + 32))"
  by (auto simp: is_ci_def upperCU_def)

lemma dec_eval:
  "(0::nat) - 1 = 0" "(1::nat) - 1 = 0" "numeral k - (1::nat) = pred_numeral k"
  "Suc n - 1 = n" "(Suc n = 0) = False" "(0 = Suc n) = False"
  by simp_all

lemmas pat_defs = seqs_def chr_def lit_def liti_def star_def plus_def upto_def exactly_def
  words_def near_def opt_s_def cancelled_opt_def amount_group_def cu_def EURO_def POUND_def
  js_def cyclePatterns_def

lemmas ev = run.simps search.simps test_def exec_at_def list_ex_Nil_iff list_ex_Cons_iff
  option.case prod.case if_True if_False simp_thms rel_simps arith_simps option.distinct
  is_ci_eval dot_def digit_def space_def dashSpace_def is_cu_def alnumSpace_def upperAZ_def
  lowerAZ_def notPeriod_def list.distinct list.inject not_False_eq_True not_True_eq_False
  option.map dec_eval pred_numeral_simps option.inject

lemma length_eval: "length (x # xs) = Suc (length xs)" "length [] = 0"
  by simp_all

lemmas ev_loop = ev exec_loop.simps Match.select_convs length_eval Suc_less_eq zero_less_Suc
  not_less0 less_irrefl_nat

lemma count_via_map: "length (filter P xs) = length (filter (\<lambda>b. b) (map P xs))"
  by (induction xs) auto

lemma ex_via_map: "list_ex P xs = list_ex (\<lambda>b. b) (map P xs)"
  by (induction xs) auto

lemma all_imp_via_map:
  "list_all (\<lambda>x. P x \<longrightarrow> Q x) xs
   = list_all (\<lambda>(a, b). a \<longrightarrow> b) (zip (map P xs) (map Q xs))"
  by (induction xs) auto

section \<open>The scorers\<close>

lemma calculateConfidence_range:
  "1 / 2 \<le> calculateConfidence content ty \<and> calculateConfidence content ty \<le> 1"
  unfolding calculateConfidence_def Let_def by (simp add: min_def)

lemma calculateConfidence_legacy_range:
  "0 \<le> calculateConfidence_legacy email extractedData
   \<and> calculateConfidence_legacy email extractedData \<le> 1"
  unfolding calculateConfidence_legacy_def Let_def bump_def by simp

text \<open>
  C9. For every content and detection type the confidence of the class scorer lies in
  \<open>[0, 1]\<close>, and so does the sum of the additive 0.3/0.2/0.2/0.2/0.1 scorer, for every
  email and every extracted data.
\<close>

theorem confidence_bounded:
  "0 \<le> calculateConfidence content ty \<and> calculateConfidence content ty \<le> 1
   \<and> 0 \<le> calculateConfidence_legacy email extractedData
   \<and> calculateConfidence_legacy email extractedData \<le> 1"
  using calculateConfidence_range [of content ty]
    calculateConfidence_legacy_range [of email extractedData]
  by linarith

theorem confidence_bounded_witness:
  "0 \<le> calculateConfidence (js ''payment processed'') billing_confirmation
   \<and> calculateConfidence (js ''payment processed'') billing_confirmation \<le> 1
   \<and> 0 \<le> calculateConfidence_legacy
          \<lparr>e_from = [], e_subject = js ''payment processed'', e_body = [], e_date = None\<rparr>
          \<lparr>x_type = billing, x_serviceName = js ''Netflix'', x_trialEndDate = None,
           x_billingAmount = Some 5\<rparr>
   \<and> calculateConfidence_legacy
          \<lparr>e_from = [], e_subject = js ''payment processed'', e_body = [], e_date = None\<rparr>
          \<lparr>x_type = billing, x_serviceName = js ''Netflix'', x_trialEndDate = None,
           x_billingAmount = Some 5\<rparr> \<le> 1"
  using confidence_bounded
    [of "js ''payment processed''" billing_confirmation
        "\<lparr>e_from = [], e_subject = js ''payment processed'', e_body = [], e_date = None\<rparr>"
        "\<lparr>x_type = billing, x_serviceName = js ''Netflix'', x_trialEndDate = None,
          x_billingAmount = Some 5\<rparr>"]
  by simp

lemma filter_count_mono:
  "(\<And>x. x \<in> set xs \<Longrightarrow> P x \<Longrightarrow> Q x) \<Longrightarrow> length (filter P xs) \<le> length (filter Q xs)"
  by (induction xs) auto

text \<open>
  C3, as the code has it. When every test of the scorer that succeeds on \<open>c\<close> succeeds on
  \<open>c'\<close> (each pattern of the type, the scorer's cost, billing-cycle and date patterns),
  the confidence of \<open>c'\<close> for a detection type is at least the confidence of \<open>c\<close> for that
  type: the scorer never lowers the confidence when one of its own signals is added.
\<close>

theorem confidence_monotone:
  assumes "preserves_scorer_signals ty c c'"
  shows "calculateConfidence c ty \<le> calculateConfidence c' ty"
proof -
  from assms have pats: "\<And>p. p \<in> set (patterns_of ty) \<Longrightarrow> test p c \<Longrightarrow> test p c'"
    and cost: "test cost_signal c \<Longrightarrow> test cost_signal c'"
    and cycle: "test cycle_signal c \<Longrightarrow> test cycle_signal c'"
    and date: "test date_signal c \<Longrightarrow> test date_signal c'"
    by (auto simp: preserves_scorer_signals_def list_all_iff)
  have "length (filter (\<lambda>p. test p c) (patterns_of ty))
           \<le> length (filter (\<lambda>p. test p c') (patterns_of ty))"
    by (rule filter_count_mono) (rule pats)
  then have n: "(of_nat (length (filter (\<lambda>p. test p c) (patterns_of ty))) :: rat)
           \<le> of_nat (length (filter (\<lambda>p. test p c') (patterns_of ty)))"
    by simp
  show ?thesis
    unfolding calculateConfidence_def Let_def
    using n cost cycle date by (auto simp: min_def)
qed

lemma plain_billing:
  "map (\<lambda>p. test p plain_content) BILLING_CONFIRMATION_PATTERNS
   = [False, False, False, False, False, True, False]"
  apply (simp add: plain_content_def BILLING_CONFIRMATION_PATTERNS_def pat_defs)
  apply (simp only: ev cong: option.case_cong_weak if_weak_cong)
  done

lemma richer_billing:
  "map (\<lambda>p. test p richer_content) BILLING_CONFIRMATION_PATTERNS
   = [False, False, False, False, False, True, False]"
  apply (simp add: richer_content_def BILLING_CONFIRMATION_PATTERNS_def pat_defs)
  apply (simp only: ev cong: option.case_cong_weak if_weak_cong)
  done

lemma plain_signals:
  "map (\<lambda>p. test p plain_content) [cost_signal, cycle_signal, date_signal]
   = [False, False, False]"
  apply (simp add: plain_content_def cost_signal_def cycle_signal_def date_signal_def pat_defs)
  apply (simp only: ev cong: option.case_cong_weak if_weak_cong)
  done

lemma richer_signals:
  "map (\<lambda>p. test p richer_content) [cost_signal, cycle_signal, date_signal]
   = [True, True, False]"
  apply (simp add: richer_content_def cost_signal_def cycle_signal_def date_signal_def pat_defs)
  apply (simp only: ev cong: option.case_cong_weak if_weak_cong)
  done

lemma plain_richer_preserved: "preserves_scorer_signals billing_confirmation plain_content richer_content"
  using plain_signals richer_signals
  by (simp add: preserves_scorer_signals_def patterns_of_def
      all_imp_via_map [of _ _ BILLING_CONFIRMATION_PATTERNS] plain_billing richer_billing)

lemma plain_confidence: "calculateConfidence plain_content billing_confirmation = 6 / 10"
  using plain_signals
  by (simp add: calculateConfidence_def patterns_of_def
      count_via_map [of _ BILLING_CONFIRMATION_PATTERNS] plain_billing)

lemma richer_confidence: "calculateConfidence richer_content billing_confirmation = 9 / 10"
  using richer_signals
  by (simp add: calculateConfidence_def patterns_of_def
      count_via_map [of _ BILLING_CONFIRMATION_PATTERNS] richer_billing)

theorem confidence_monotone_witness:
  "preserves_scorer_signals billing_confirmation plain_content richer_content
   \<and> calculateConfidence plain_content billing_confirmation = 6 / 10
   \<and> calculateConfidence richer_content billing_confirmation = 9 / 10
   \<and> calculateConfidence plain_content billing_confirmation
       \<le> calculateConfidence richer_content billing_confirmation"
  using confidence_monotone [OF plain_richer_preserved] plain_richer_preserved
    plain_confidence richer_confidence
  by simp

section \<open>The first end-to-end scenario\<close>

lemma netflix_getEmailContent: "getEmailContent netflix_email = netflix_content"
  by (simp add: getEmailContent_def netflix_email_def netflix_content_def or_empty_def js_def)

lemma netflix_spam_patterns:
  "map (\<lambda>p. test p netflix_content) SPAM_PATTERNS = [False, False, False, False, False, False]"
  apply (simp add: netflix_content_def SPAM_PATTERNS_def pat_defs)
  apply (simp only: ev cong: option.case_cong_weak if_weak_cong)
  done

lemma netflix_sender_domain: "sender_domain (js ''billing@netflix.com'') = Some (js ''netflix.com'')"
  by (simp add: sender_domain_def toLowerCase_def lowerCU_def js_def cu_def)

lemma netflix_not_spam: "\<not> isSpamEmail netflix_content (js ''billing@netflix.com'')"
  apply (simp add: isSpamEmail_def ex_via_map [of _ SPAM_PATTERNS] netflix_spam_patterns
      netflix_sender_domain)
  apply (simp add: suspiciousDomains_def js_def)
  done

lemma netflix_strip: "strip_mail_prefix (js ''netflix.com'') = js ''netflix.com''"
  apply (simp add: strip_mail_prefix_def pat_defs)
  apply (simp only: ev cong: option.case_cong_weak if_weak_cong)
  done

lemma netflix_service:
  "extractServiceName (js ''billing@netflix.com'') content = Some (js ''Netflix'')"
  apply (simp add: extractServiceName_def netflix_sender_domain netflix_strip)
  apply (simp add: COMMON_SUBSCRIPTION_SERVICES_def capitalize_def toUpperCase_def upperCU_def js_def)
  done

lemma netflix_signup:
  "map (\<lambda>p. test p netflix_content) TRIAL_SIGNUP_PATTERNS
   = [False, False, False, False, False, False, False]"
  apply (simp add: netflix_content_def TRIAL_SIGNUP_PATTERNS_def pat_defs)
  apply (simp only: ev cong: option.case_cong_weak if_weak_cong)
  done

lemma netflix_reminder:
  "map (\<lambda>p. test p netflix_content) TRIAL_REMINDER_PATTERNS
   = [False, False, False, False, False, False]"
  apply (simp add: netflix_content_def TRIAL_REMINDER_PATTERNS_def pat_defs)
  apply (simp only: ev cong: option.case_cong_weak if_weak_cong)
  done

lemma netflix_billing:
  "map (\<lambda>p. test p netflix_content) BILLING_CONFIRMATION_PATTERNS
   = [False, True, False, False, False, False, False]"
  apply (simp add: netflix_content_def BILLING_CONFIRMATION_PATTERNS_def pat_defs)
  apply (simp only: ev cong: option.case_cong_weak if_weak_cong)
  done

lemma netflix_start:
  "map (\<lambda>p. test p netflix_content) SUBSCRIPTION_START_PATTERNS
   = [False, False, False, False, False, False]"
  apply (simp add: netflix_content_def SUBSCRIPTION_START_PATTERNS_def pat_defs)
  apply (simp only: ev cong: option.case_cong_weak if_weak_cong)
  done

lemma netflix_price:
  "map (\<lambda>p. test p netflix_content) PRICE_CHANGE_PATTERNS
   = [False, False, False, False, False, False]"
  apply (simp add: netflix_content_def PRICE_CHANGE_PATTERNS_def pat_defs)
  apply (simp only: ev cong: option.case_cong_weak if_weak_cong)
  done

lemma netflix_signals:
  "map (\<lambda>p. test p netflix_content) [cost_signal, cycle_signal, date_signal]
   = [True, False, True]"
  apply (simp add: netflix_content_def cost_signal_def cycle_signal_def date_signal_def pat_defs)
  apply (simp only: ev cong: option.case_cong_weak if_weak_cong)
  done

lemma netflix_cycles:
  "map (\<lambda>source. test (liti source) netflix_content) cyclePatterns
   = [False, False, False, False, False]"
  apply (simp add: netflix_content_def pat_defs)
  apply (simp only: ev cong: option.case_cong_weak if_weak_cong)
  done

lemma netflix_cost_search:
  "map (\<lambda>p. search p netflix_content) costPatterns
   = [Some \<lparr>whole = js ''$15.99'', group1 = Some (js ''15.99''),
            after = js ''/month. Next billing date is January 27, 2025. ''\<rparr>,
      None, None, None]"
  apply (simp add: netflix_content_def costPatterns_def pat_defs)
  apply (simp only: ev cong: option.case_cong_weak if_weak_cong)
  apply (simp add: consumed_def)
  done


lemma map_filter_via_map: "List.map_filter f xs = List.map_filter (\<lambda>x. x) (map f xs)"
  by (induction xs) (auto split: option.splits)

lemma netflix_cost: "extractCost netflix_content = (Some (1599 / 100), Some (js ''USD''))"
  apply (simp add: extractCost_def map_filter_via_map [of _ costPatterns] netflix_cost_search)
  apply (simp add: extractCurrency_def parseFloat_def digits_value_def digit_def js_def)
  done

lemma netflix_cycle: "extractCycle netflix_content = None"
  using netflix_cycles by (simp add: extractCycle_def cyclePatterns_def)

lemma netflix_confidence: "calculateConfidence netflix_content billing_confirmation = 9 / 10"
  using netflix_signals
  by (simp add: calculateConfidence_def patterns_of_def
      count_via_map [of _ BILLING_CONFIRMATION_PATTERNS] netflix_billing)

text \<open>What a \<open>detect...\<close> method returns, field by field.\<close>

lemma detect_eq:
  "detect chrono_parse now ty content name =
     (if list_ex (\<lambda>pattern. test pattern content) (patterns_of ty)
      then Some \<lparr>serviceName = name, detectionType = ty,
                 confidence = calculateConfidence content ty,
                 cost = fst (extractCost content), currency = snd (extractCost content),
                 billingCycle = extractCycle content,
                 trialEndDate =
                   (if content = [] then None
                    else extractTrialEndDate chrono_parse now
                           \<lparr>e_from = [], e_subject = take 100 content, e_body = content,
                            e_date = None\<rparr>),
                 nextBillingDate = None, rawContent = take 500 content\<rparr>
      else None)"
  by (simp add: detect_def extractSubscriptionData_def parseSubscriptionEmail_def Let_def
      split: prod.splits)

lemma netflix_content_nonempty: "netflix_content \<noteq> []"
  by (simp add: netflix_content_def js_def)

lemma netflix_raw: "take 500 netflix_content = netflix_content"
  by (simp add: netflix_content_def js_def)

lemma netflix_detects:
  "detect chrono_parse now trial_signup netflix_content name = None"
  "detect chrono_parse now trial_reminder netflix_content name = None"
  "detect chrono_parse now billing_confirmation netflix_content (js ''Netflix'')
   = Some (netflix_detection (extractTrialEndDate chrono_parse now netflix_emailObj))"
  "detect chrono_parse now subscription_start netflix_content name = None"
  "detect chrono_parse now price_change netflix_content name = None"
  by (simp_all add: detect_eq patterns_of_def
      ex_via_map [of _ TRIAL_SIGNUP_PATTERNS] ex_via_map [of _ TRIAL_REMINDER_PATTERNS]
      ex_via_map [of _ BILLING_CONFIRMATION_PATTERNS] ex_via_map [of _ SUBSCRIPTION_START_PATTERNS]
      ex_via_map [of _ PRICE_CHANGE_PATTERNS]
      netflix_signup netflix_reminder netflix_billing netflix_start netflix_price
      netflix_confidence netflix_cost netflix_cycle netflix_content_nonempty netflix_raw
      netflix_detection_def netflix_emailObj_def)

lemma netflix_parseEmail:
  "parseEmail chrono_parse now netflix_email
   = Inr [netflix_detection (extractTrialEndDate chrono_parse now netflix_emailObj)]"
proof -
  have sender: "em_from netflix_email = js ''billing@netflix.com''"
    by (simp add: netflix_email_def)
  have name: "js ''Netflix'' \<noteq> []"
    by (simp add: js_def)
  show ?thesis
    by (simp add: parseEmail_def netflix_getEmailContent sender netflix_not_spam
        netflix_service name Let_def detectTrialSignup_def detectTrialReminder_def
        detectBillingConfirmation_def detectSubscriptionStart_def detectPriceChange_def
        netflix_detects push_def)
qed

text \<open>
  C1, as the code has it. For the message of the first scenario, whatever the date library
  and the clock, \<open>parseEmail\<close> returns exactly one detection, with service name
  \<open>Netflix\<close>, type \<open>billing_confirmation\<close>, cost 15.99 and currency \<open>USD\<close>; it has no
  billing cycle (the text says \<open>/month\<close>, and no cycle pattern matches that), and its
  confidence is 0.9: the base 0.5, one matching pattern, the cost signal and the date
  signal.
\<close>

theorem netflix_scenario:
  "\<exists>d. parseEmail chrono_parse now netflix_email = Inr [d]
     \<and> serviceName d = js ''Netflix'' \<and> detectionType d = billing_confirmation
     \<and> cost d = Some (1599 / 100) \<and> currency d = Some (js ''USD'')
     \<and> billingCycle d = None \<and> confidence d = 9 / 10"
  by (simp add: netflix_parseEmail netflix_detection_def)

theorem netflix_scenario_witness:
  "\<exists>d. parseEmail netflix_calendar start_2025 netflix_email = Inr [d]
     \<and> serviceName d = js ''Netflix'' \<and> detectionType d = billing_confirmation
     \<and> cost d = Some (1599 / 100) \<and> currency d = Some (js ''USD'')
     \<and> billingCycle d = None \<and> confidence d = 9 / 10"
  using netflix_scenario [of netflix_calendar start_2025] by simp

text \<open>
  C1 as stated fails: the one detection of the scenario does not have the billing cycle
  \<open>monthly\<close>.
\<close>

theorem netflix_scenario_counterexample:
  "\<not> (\<exists>d. parseEmail netflix_calendar start_2025 netflix_email = Inr [d]
        \<and> serviceName d = js ''Netflix'' \<and> detectionType d = billing_confirmation
        \<and> cost d = Some (1599 / 100) \<and> currency d = Some (js ''USD'')
        \<and> billingCycle d = Some (js ''monthly'') \<and> 8 / 10 \<le> confidence d)"
  by (simp add: netflix_parseEmail netflix_detection_def)

section \<open>Properties of every run of the parser\<close>

lemma detect_confidence:
  assumes "detect chrono_parse now ty content name = Some d"
  shows "6 / 10 \<le> confidence d"
proof -
  from assms have ex: "list_ex (\<lambda>pattern. test pattern content) (patterns_of ty)"
    and d: "confidence d = calculateConfidence content ty"
    by (auto simp: detect_def Let_def split: if_splits)
  from ex have "filter (\<lambda>p. test p content) (patterns_of ty) \<noteq> []"
    by (auto simp: list_ex_iff filter_empty_conv)
  then have "1 \<le> length (filter (\<lambda>p. test p content) (patterns_of ty))"
    by (cases "filter (\<lambda>p. test p content) (patterns_of ty)") auto
  then have "(1::rat) \<le> of_nat (length (filter (\<lambda>p. test p content) (patterns_of ty)))"
    by (metis of_nat_1 of_nat_le_iff)
  then show ?thesis
    unfolding d calculateConfidence_def Let_def by (auto simp: min_def)
qed

lemma push_set: "set (push xs x) = set xs \<union> set_option x"
  by (cases x) (auto simp: push_def)

lemma parseEmail_cases:
  assumes "parseEmail chrono_parse now emailData = Inr ds" and "d \<in> set ds"
  shows "\<exists>ty name. detect chrono_parse now ty (getEmailContent emailData) name = Some d"
proof -
  define content where "content = getEmailContent emailData"
  from assms(2) have "ds \<noteq> []" by auto
  with assms(1) obtain name where
    ds: "ds = push (push (push (push (push []
           (detect chrono_parse now trial_signup content name))
           (detect chrono_parse now trial_reminder content name))
           (detect chrono_parse now billing_confirmation content name))
           (detect chrono_parse now subscription_start content name))
           (detect chrono_parse now price_change content name)"
    unfolding parseEmail_def Let_def detectTrialSignup_def detectTrialReminder_def
      detectBillingConfirmation_def detectSubscriptionStart_def detectPriceChange_def
      content_def
    by (auto split: if_splits option.splits)
  from assms(2) have "\<exists>ty. detect chrono_parse now ty content name = Some d"
    unfolding ds by (auto simp: push_set)
  then show ?thesis unfolding content_def by blast
qed

text \<open>
  C10. Every detection in the list \<open>parseEmail\<close> returns has confidence at least 0.6: it
  is emitted only when a pattern of its type matches, and each matching pattern adds 0.1
  to the base 0.5.
\<close>

theorem emitted_confidence_at_least_06:
  assumes "parseEmail chrono_parse now emailData = Inr ds"
  shows "\<forall>d \<in> set ds. 6 / 10 \<le> confidence d"
  using parseEmail_cases [OF assms] detect_confidence by blast

theorem emitted_confidence_at_least_06_witness:
  "parseEmail netflix_calendar start_2026 netflix_email
     = Inr [netflix_detection (extractTrialEndDate netflix_calendar start_2026 netflix_emailObj)]
   \<and> 6 / 10 \<le> confidence
         (netflix_detection (extractTrialEndDate netflix_calendar start_2026 netflix_emailObj))"
  using emitted_confidence_at_least_06 [OF netflix_parseEmail [of netflix_calendar start_2026]]
    netflix_parseEmail [of netflix_calendar start_2026]
  by simp

text \<open>
  C4. When the content of a message (subject, text body and HTML body, joined by spaces)
  matches a spam pattern, \<open>parseEmail\<close> returns the empty list, whatever else the message
  holds.
\<close>

theorem spam_short_circuit:
  assumes "list_ex (\<lambda>pattern. test pattern (getEmailContent emailData)) SPAM_PATTERNS"
  shows "parseEmail chrono_parse now emailData = Inr []"
  using assms by (simp add: parseEmail_def isSpamEmail_def Let_def)

lemma spam_getEmailContent: "getEmailContent spam_email = spam_content"
  by (simp add: getEmailContent_def spam_email_def spam_content_def or_empty_def js_def)

lemma spam_patterns:
  "map (\<lambda>p. test p spam_content) SPAM_PATTERNS = [False, False, False, True, True, False]"
  apply (simp add: spam_content_def SPAM_PATTERNS_def pat_defs)
  apply (simp only: ev cong: option.case_cong_weak if_weak_cong)
  done

lemma spam_matches: "list_ex (\<lambda>pattern. test pattern (getEmailContent spam_email)) SPAM_PATTERNS"
  by (simp add: spam_getEmailContent ex_via_map [of _ SPAM_PATTERNS] spam_patterns)

theorem spam_short_circuit_witness:
  "list_ex (\<lambda>pattern. test pattern (getEmailContent spam_email)) SPAM_PATTERNS
   \<and> parseEmail netflix_calendar start_2025 spam_email = Inr []"
  using spam_short_circuit [OF spam_matches, of netflix_calendar start_2025] spam_matches
  by simp

section \<open>The amount\<close>

text \<open>A match takes at least the least length of its pattern.\<close>

lemma run_consumes:
  "run fs s g = Some (s', g') \<Longrightarrow> length s' + sum_list (map fminlen fs) \<le> length s"
proof (induction fs s g arbitrary: s' g' rule: run.induct)
  case (7 a b fs s g)
  then show ?case by (auto simp: run.simps split: option.splits)
next
  case (8 a fs s g)
  then show ?case by (auto simp: run.simps split: option.splits)
next
  case (12 lo hi p fs c cs g)
  then show ?case by (fastforce simp: run.simps split: option.splits if_splits)
qed (auto simp: run.simps split: if_splits)

lemma exec_at_consumes:
  "exec_at r s = Some mt \<Longrightarrow> length (after mt) + minlen r \<le> length s"
  using run_consumes [of "[Rx r]" s None]
  by (auto simp: exec_at_def split: option.splits)

lemma search_consumes:
  "search r s = Some mt \<Longrightarrow> length (after mt) + minlen r \<le> length s"
proof (induction s)
  case Nil
  then show ?case using exec_at_consumes [of r "[]" mt] by (simp add: search.simps)
next
  case (Cons c cs)
  then show ?case
    using exec_at_consumes [of r "c # cs" mt]
    by (auto simp: search.simps split: option.splits)
qed

lemma amount_patterns_minlen: "\<forall>p \<in> set AMOUNT_PATTERNS. 2 \<le> minlen p"
  by (simp add: AMOUNT_PATTERNS_def pat_defs)

lemma amount_pattern_progress:
  assumes "p \<in> set AMOUNT_PATTERNS" and "search p s = Some mt"
  shows "length (after mt) < length s"
  using search_consumes [OF assms(2)] amount_patterns_minlen assms(1) by fastforce

lemma foundAmounts_range:
  assumes "x \<in> set (foundAmounts content)"
  shows "0 < x \<and> x < 10000"
  using assms
  by (auto simp: foundAmounts_def pattern_amounts_def split: option.splits if_splits)

lemma count_list_insort: "count_list (insort x xs) y = count_list (x # xs) y"
  by (induction xs) auto

lemma count_list_sort: "count_list (sort xs) y = count_list xs y"
  by (induction xs) (simp_all add: count_list_insort)

lemma uniqueOf_aux:
  "distinct acc \<Longrightarrow>
   distinct (foldl (\<lambda>acc x. if x \<in> set acc then acc else acc @ [x]) acc xs)
   \<and> set (foldl (\<lambda>acc x. if x \<in> set acc then acc else acc @ [x]) acc xs) = set acc \<union> set xs"
  by (induction xs arbitrary: acc) auto

lemma uniqueOf_distinct: "distinct (uniqueOf xs)"
  using uniqueOf_aux [of "[]" xs] by (simp add: uniqueOf_def)

lemma uniqueOf_set: "set (uniqueOf xs) = set xs"
  using uniqueOf_aux [of "[]" xs] by (simp add: uniqueOf_def)

lemma uniqueOf_length: "length (uniqueOf xs) = card (set xs)"
  using distinct_card [OF uniqueOf_distinct, of xs] by (simp add: uniqueOf_set)

lemma at_index_nth: "i < length xs \<Longrightarrow> at_index xs i = Some (xs ! i)"
  by (induction xs i rule: at_index.induct) auto


lemma findMode_loop_inv:
  assumes "findMode_loop xs fr mf mo = (mf', mo')"
    and "\<forall>x. cnt fr x \<le> mf"
    and "0 < mf \<longrightarrow> (\<exists>v. mo = Some v \<and> cnt fr v = mf)"
  shows "(\<forall>x. cnt fr x + count_list xs x \<le> mf')
         \<and> (0 < mf' \<longrightarrow> (\<exists>v. mo' = Some v \<and> cnt fr v + count_list xs v = mf'))"
  using assms
proof (induction xs arbitrary: fr mf mo)
  case Nil
  then show ?case by simp
next
  case (Cons num xs)
  define f where "f = cnt fr num + 1"
  define fr' where "fr' = fr(num \<mapsto> f)"
  have cnt': "\<And>x. cnt fr' x = (if x = num then f else cnt fr x)"
    by (simp add: cnt_def fr'_def)
  have shift: "\<And>x. cnt fr' x + count_list xs x = cnt fr x + count_list (num # xs) x"
    by (simp add: cnt' f_def)
  show ?case
  proof (cases "mf < f")
    case True
    with Cons.prems(1) have loop: "findMode_loop xs fr' f (Some num) = (mf', mo')"
      by (simp add: Let_def f_def fr'_def cnt_def)
    have a: "\<forall>x. cnt fr' x \<le> f"
      using Cons.prems(2) True by (auto simp: cnt' intro: order.strict_implies_order le_less_trans)
    have b: "0 < f \<longrightarrow> (\<exists>v. Some num = Some v \<and> cnt fr' v = f)"
      by (simp add: cnt')
    from Cons.IH [OF loop a b] show ?thesis unfolding shift .
  next
    case False
    with Cons.prems(1) have loop: "findMode_loop xs fr' mf mo = (mf', mo')"
      by (simp add: Let_def f_def fr'_def cnt_def)
    have a: "\<forall>x. cnt fr' x \<le> mf"
      using Cons.prems(2) False by (auto simp: cnt')
    have b: "0 < mf \<longrightarrow> (\<exists>v. mo = Some v \<and> cnt fr' v = mf)"
    proof
      assume "0 < mf"
      with Cons.prems(3) obtain v where v: "mo = Some v" "cnt fr v = mf" by blast
      with False have "v \<noteq> num" by (auto simp: f_def)
      with v show "\<exists>v. mo = Some v \<and> cnt fr' v = mf" by (simp add: cnt')
    qed
    from Cons.IH [OF loop a b] show ?thesis unfolding shift .
  qed
qed

lemma findMode_loop_start:
  assumes "findMode_loop xs Map.empty 0 None = (mf', mo')"
  shows "(\<forall>x. count_list xs x \<le> mf')
         \<and> (0 < mf' \<longrightarrow> (\<exists>v. mo' = Some v \<and> count_list xs v = mf'))"
  using findMode_loop_inv [OF assms] by (simp add: cnt_def)

lemma findMode_Some:
  assumes "findMode xs = Some v"
  shows "1 < count_list xs v \<and> (\<forall>x. count_list xs x \<le> count_list xs v)"
proof -
  obtain mf' mo' where l: "findMode_loop xs Map.empty 0 None = (mf', mo')"
    by (cases "findMode_loop xs Map.empty 0 None") auto
  from assms l have "1 < mf'" "mo' = Some v"
    by (auto simp: findMode_def split: if_splits)
  with findMode_loop_start [OF l] show ?thesis by auto
qed

lemma findMode_None:
  assumes "findMode xs = None"
  shows "\<forall>x. count_list xs x \<le> 1"
proof -
  obtain mf' mo' where l: "findMode_loop xs Map.empty 0 None = (mf', mo')"
    by (cases "findMode_loop xs Map.empty 0 None") auto
  from findMode_loop_start [OF l] have all: "\<forall>x. count_list xs x \<le> mf'"
    and some: "0 < mf' \<longrightarrow> (\<exists>v. mo' = Some v)" by auto
  from assms l some have "mf' \<le> 1"
    by (auto simp: findMode_def split: if_splits)
  with all show ?thesis using le_trans by blast
qed

lemma not_distinct_count: "\<not> distinct xs \<Longrightarrow> \<exists>x. 2 \<le> count_list xs x"
proof (induction xs)
  case Nil
  then show ?case by simp
next
  case (Cons a xs)
  show ?case
  proof (cases "a \<in> set xs")
    case True
    then have "count_list xs a \<noteq> 0" by (simp add: count_list_0_iff)
    then have "0 < count_list xs a" by simp
    then have "2 \<le> count_list (a # xs) a" by simp
    then show ?thesis by blast
  next
    case False
    with Cons.prems have "\<not> distinct xs" by simp
    from Cons.IH [OF this] obtain x where "2 \<le> count_list xs x" by blast
    then have "2 \<le> count_list (a # xs) x" by simp
    then show ?thesis by blast
  qed
qed

lemma distinct_count: "distinct xs \<Longrightarrow> count_list xs x \<le> 1"
  by (induction xs) (auto simp: count_list_0_iff)

text \<open>The four cases of \<open>chooseAmount\<close>.\<close>

lemma chooseAmount_none: "chooseAmount [] = None"
  by (simp add: chooseAmount_def)

lemma chooseAmount_single:
  assumes "set found = {a}"
  shows "chooseAmount found = Some a"
proof -
  from assms have ne: "found \<noteq> []" by auto
  have len: "length (uniqueOf (sort found)) = 1"
    by (simp add: uniqueOf_length assms)
  then obtain u where u: "uniqueOf (sort found) = [u]"
    by (cases "uniqueOf (sort found)") auto
  have "set (uniqueOf (sort found)) = {a}"
    by (simp add: uniqueOf_set assms)
  with u have "u = a" by simp
  with u len ne show ?thesis by (simp add: chooseAmount_def Let_def)
qed

lemma chooseAmount_mode:
  assumes "2 \<le> card (set found)" and "\<not> distinct found" and "0 \<notin> set found"
  shows "\<exists>v. chooseAmount found = Some v \<and> is_mode found v \<and> 1 < count_list found v"
proof -
  from assms(2) have ne: "found \<noteq> []" by auto
  have len: "length (uniqueOf (sort found)) \<noteq> 1"
    using assms(1) by (simp add: uniqueOf_length)
  from not_distinct_count [OF assms(2)] obtain x where x: "2 \<le> count_list found x" by blast
  have "findMode (sort found) \<noteq> None"
  proof
    assume "findMode (sort found) = None"
    from findMode_None [OF this] have "count_list (sort found) x \<le> 1" by blast
    with x show False by (simp add: count_list_sort)
  qed
  then obtain v where v: "findMode (sort found) = Some v" by blast
  from findMode_Some [OF v] have c: "1 < count_list found v"
    and m: "\<forall>x. count_list found x \<le> count_list found v"
    by (simp_all add: count_list_sort)
  from c have vin: "v \<in> set found"
    by (metis count_list_0_iff not_less_zero)
  with assms(3) have "v \<noteq> 0" by auto
  with v len ne have "chooseAmount found = Some v"
    by (simp add: chooseAmount_def Let_def)
  moreover have "is_mode found v"
    using vin m by (simp add: is_mode_def list_all_iff)
  ultimately show ?thesis using c by blast
qed

lemma chooseAmount_middle:
  assumes "2 \<le> card (set found)" and "distinct found"
  shows "chooseAmount found = Some (middle_of found)"
proof -
  from assms(1) have ne: "found \<noteq> []" by auto
  have len: "length (uniqueOf (sort found)) \<noteq> 1"
    using assms(1) by (simp add: uniqueOf_length)
  have "findMode (sort found) = None"
  proof (cases "findMode (sort found)")
    case None
    then show ?thesis .
  next
    case (Some v)
    from findMode_Some [OF Some] have "1 < count_list found v" by (simp add: count_list_sort)
    with distinct_count [OF assms(2), of v] show ?thesis by simp
  qed
  moreover have "length (sort found) div 2 < length (sort found)"
    using ne by (cases found) auto
  moreover have "middle_of found = sort found ! (length (sort found) div 2)"
    using assms(2) by (simp add: middle_of_def distinct_remdups_id)
  ultimately show ?thesis
    using ne len by (simp add: chooseAmount_def Let_def at_index_nth)
qed

lemma median_odd:
  assumes "distinct found" and "odd (length found)"
  shows "median_of found = middle_of found"
  using assms by (simp add: median_of_def middle_of_def Let_def distinct_remdups_id)

text \<open>
  C6, as the code has it. Let \<open>found\<close> be the in-range amounts the amount patterns find
  in the subject and body. When \<open>found\<close> is empty the result is absent; when it holds one
  distinct amount, that amount is the result; when it holds two or more distinct amounts
  and some amount occurs more than once, the result is a most frequent amount, one that
  occurs more than once; when it holds two or more distinct amounts and none occurs twice,
  the result is the middle element of the sorted amounts, at index \<open>floor(n / 2)\<close>: the
  median when their number is odd, the upper of the two middle amounts when it is even.
\<close>

theorem extractAmount_choice:
  assumes "found = foundAmounts (subject_body email)"
  shows "(found = [] \<longrightarrow> extractAmount email = None)
       \<and> (\<forall>a. set found = {a} \<longrightarrow> extractAmount email = Some a)
       \<and> (2 \<le> card (set found) \<and> \<not> distinct found \<longrightarrow>
            (\<exists>v. extractAmount email = Some v \<and> is_mode found v \<and> 1 < count_list found v))
       \<and> (2 \<le> card (set found) \<and> distinct found \<longrightarrow>
            extractAmount email = Some (middle_of found))
       \<and> (2 \<le> card (set found) \<and> distinct found \<and> odd (length found) \<longrightarrow>
            extractAmount email = Some (median_of found))"
proof -
  have pos: "0 \<notin> set found"
    using foundAmounts_range [of 0 "subject_body email"] assms by auto
  have e: "extractAmount email = chooseAmount found"
    by (simp add: extractAmount_def assms)
  show ?thesis
    unfolding e
    using chooseAmount_none chooseAmount_single chooseAmount_mode [OF _ _ pos]
      chooseAmount_middle median_odd
    by auto
qed

lemma repeated_found: "foundAmounts (subject_body repeated_email) = [5, 10, 5]"
  apply (simp add: foundAmounts_def pattern_amounts_def AMOUNT_PATTERNS_def repeated_email_def
      subject_body_def pat_defs)
  apply (simp only: ev_loop cong: option.case_cong_weak if_weak_cong)
  apply (simp add: consumed_def parseFloat_def digits_value_def digit_def)
  done

lemma two_found: "foundAmounts (subject_body two_amounts_email) = [5, 10]"
  apply (simp add: foundAmounts_def pattern_amounts_def AMOUNT_PATTERNS_def two_amounts_email_def
      subject_body_def pat_defs)
  apply (simp only: ev_loop cong: option.case_cong_weak if_weak_cong)
  apply (simp add: consumed_def parseFloat_def digits_value_def digit_def)
  done

lemma one_found: "foundAmounts (subject_body one_amount_email) = [5]"
  apply (simp add: foundAmounts_def pattern_amounts_def AMOUNT_PATTERNS_def one_amount_email_def
      subject_body_def pat_defs)
  apply (simp only: ev_loop cong: option.case_cong_weak if_weak_cong)
  apply (simp add: consumed_def parseFloat_def digits_value_def digit_def)
  done

lemma none_found: "foundAmounts (subject_body no_amount_email) = []"
  apply (simp add: foundAmounts_def pattern_amounts_def AMOUNT_PATTERNS_def no_amount_email_def
      subject_body_def pat_defs)
  apply (simp only: ev_loop cong: option.case_cong_weak if_weak_cong)
  apply (simp add: consumed_def parseFloat_def digits_value_def digit_def)
  done

theorem extractAmount_choice_witness:
  "foundAmounts (subject_body no_amount_email) = []
   \<and> extractAmount no_amount_email = None
   \<and> set (foundAmounts (subject_body one_amount_email)) = {5}
   \<and> extractAmount one_amount_email = Some 5
   \<and> 2 \<le> card (set (foundAmounts (subject_body repeated_email)))
   \<and> \<not> distinct (foundAmounts (subject_body repeated_email))
   \<and> extractAmount repeated_email = Some 5
   \<and> is_mode (foundAmounts (subject_body repeated_email)) 5
   \<and> 1 < count_list (foundAmounts (subject_body repeated_email)) 5
   \<and> 2 \<le> card (set (foundAmounts (subject_body two_amounts_email)))
   \<and> distinct (foundAmounts (subject_body two_amounts_email))
   \<and> extractAmount two_amounts_email = Some 10"
proof -
  have card3: "card (set [5, 10, 5 :: rat]) = 2" and card2: "card (set [5, 10 :: rat]) = 2"
    by (simp_all add: insert_commute)
  from extractAmount_choice [OF refl, of no_amount_email]
  have a: "extractAmount no_amount_email = None"
    by (simp add: none_found)
  from extractAmount_choice [OF refl, of one_amount_email]
  have b: "extractAmount one_amount_email = Some 5"
    by (simp add: one_found)
  from extractAmount_choice [OF refl, of repeated_email] card3
  obtain v where v: "extractAmount repeated_email = Some v" "is_mode [5, 10, 5] v"
      "1 < count_list [5, 10, 5] v"
    by (auto simp: repeated_found)
  from v(3) have "v = 5"
    by (cases "v = 5"; cases "v = 10") simp_all
  with v have c: "extractAmount repeated_email = Some 5" "is_mode [5, 10, 5] 5"
      "1 < count_list [5, 10, 5 :: rat] 5"
    by simp_all
  from extractAmount_choice [OF refl, of two_amounts_email] card2
  have d: "extractAmount two_amounts_email = Some 10"
    by (simp add: two_found middle_of_def)
  from a b c d card2 card3 show ?thesis
    by (simp add: none_found one_found repeated_found two_found)
qed

text \<open>
  C6 as stated fails: of the two distinct amounts 5 and 10, neither repeated, the result
  is 10 and not their median 7.5.
\<close>

theorem median_counterexample:
  "distinct (foundAmounts (subject_body two_amounts_email))
   \<and> 2 \<le> card (set (foundAmounts (subject_body two_amounts_email)))
   \<and> extractAmount two_amounts_email
       \<noteq> Some (median_of (foundAmounts (subject_body two_amounts_email)))"
proof -
  have "card (set [5, 10 :: rat]) = 2"
    by simp
  moreover have "chooseAmount [5, 10] = Some 10"
    using chooseAmount_middle [of "[5, 10]"] by (simp add: middle_of_def)
  moreover have "median_of [5, 10] = 15 / 2"
    by (simp add: median_of_def)
  ultimately show ?thesis
    by (simp add: extractAmount_def two_found)
qed

lemmas ev_dates = dates_at.simps startsWith.simps list.map filter.simps prod.case append.simps
  if_True if_False simp_thms rel_simps list.distinct list.inject

lemma netflix_obj_content:
  "subject_body netflix_emailObj = js ''Your Netflix subscription has been renewed Your Netflix subscription has been renewed for $15.99/mon Your Netflix subscription has been renewed Your Netflix subscription has been renewed for $15.99/month. Next billing date is January 27, 2025. ''"
  by (simp add: subject_body_def netflix_emailObj_def netflix_content_def js_def)

lemma netflix_no_section: "search trialEndSection_pattern (subject_body netflix_emailObj) = None"
  apply (simp add: netflix_obj_content trialEndSection_pattern_def pat_defs)
  apply (simp only: ev cong: option.case_cong_weak if_weak_cong)
  done

lemma netflix_dates:
  "netflix_calendar now (subject_body netflix_emailObj)
   = [\<lparr>pr_date = 1737979200000, pr_text = js ''January 27, 2025'', pr_tags = True\<rparr>]"
  apply (simp add: netflix_obj_content netflix_calendar_def calendar_def js_def del: dates_at.simps)
  apply (simp only: ev_dates cong: if_weak_cong)
  done

lemma renewal_no_section: "search trialEndSection_pattern (subject_body renewal_email) = None"
  apply (simp add: subject_body_def renewal_email_def trialEndSection_pattern_def pat_defs)
  apply (simp only: ev cong: option.case_cong_weak if_weak_cong)
  done

lemma renewal_dates:
  "renewal_calendar now (subject_body renewal_email)
   = [\<lparr>pr_date = 1898942400000, pr_text = js ''March 5, 2030'', pr_tags = True\<rparr>,
      \<lparr>pr_date = 1896177600000, pr_text = js ''February 1, 2030'', pr_tags = True\<rparr>]"
  apply (simp add: subject_body_def renewal_email_def renewal_calendar_def calendar_def js_def del: dates_at.simps)
  apply (simp only: ev_dates cong: if_weak_cong)
  done

lemma trial_section:
  "map_option whole (search trialEndSection_pattern (subject_body trial_email))
   = Some (js ''trial ends in 3 days Your trial ends on March 1, 2025. Then you are billed $9.99 monthly.'')"
  apply (simp add: subject_body_def trial_email_def trialEndSection_pattern_def pat_defs)
  apply (simp only: ev cong: option.case_cong_weak if_weak_cong)
  apply (simp add: consumed_def)
  done

lemma trial_dates:
  "trial_calendar now (js ''trial ends in 3 days Your trial ends on March 1, 2025. Then you are billed $9.99 monthly.'')
   = [\<lparr>pr_date = 1740830400000, pr_text = js ''March 1, 2025'', pr_tags = True\<rparr>]"
  apply (simp add: trial_calendar_def calendar_def js_def del: dates_at.simps)
  apply (simp only: ev_dates cong: if_weak_cong)
  done

lemma blank_patterns:
  "map (\<lambda>p. test p (js ''  '')) TRIAL_SIGNUP_PATTERNS = [False, False, False, False, False, False, False]"
  "map (\<lambda>p. test p (js ''  '')) TRIAL_REMINDER_PATTERNS = [False, False, False, False, False, False]"
  "map (\<lambda>p. test p (js ''  '')) BILLING_CONFIRMATION_PATTERNS = [False, False, False, False, False, False, False]"
  "map (\<lambda>p. test p (js ''  '')) SUBSCRIPTION_START_PATTERNS = [False, False, False, False, False, False]"
  "map (\<lambda>p. test p (js ''  '')) PRICE_CHANGE_PATTERNS = [False, False, False, False, False, False]"
      apply (simp add: TRIAL_SIGNUP_PATTERNS_def pat_defs)
      apply (simp only: ev cong: option.case_cong_weak if_weak_cong)
     apply (simp add: TRIAL_REMINDER_PATTERNS_def pat_defs)
     apply (simp only: ev cong: option.case_cong_weak if_weak_cong)
    apply (simp add: BILLING_CONFIRMATION_PATTERNS_def pat_defs)
    apply (simp only: ev cong: option.case_cong_weak if_weak_cong)
   apply (simp add: SUBSCRIPTION_START_PATTERNS_def pat_defs)
   apply (simp only: ev cong: option.case_cong_weak if_weak_cong)
  apply (simp add: PRICE_CHANGE_PATTERNS_def pat_defs)
  apply (simp only: ev cong: option.case_cong_weak if_weak_cong)
  done




section \<open>The trial end date\<close>

lemma first_of_filter:
  "(case filter P xs of [] \<Rightarrow> None | d # ds \<Rightarrow> Some (f d)) = map_option f (find P xs)"
  by (induction xs) auto

lemma extractTrialEndDate_section:
  assumes "search trialEndSection_pattern (subject_body email) = Some w"
    and "chrono_parse now (whole w) = d # ds"
  shows "extractTrialEndDate chrono_parse now email = Some (pr_date d)"
  using assms by (simp add: extractTrialEndDate_def extractDates_def Let_def)

lemma extractTrialEndDate_future:
  assumes "search trialEndSection_pattern (subject_body email) = None
           \<or> (\<exists>w. search trialEndSection_pattern (subject_body email) = Some w
                  \<and> chrono_parse now (whole w) = [])"
  shows "extractTrialEndDate chrono_parse now email
         = map_option pr_date
             (find (\<lambda>d. reference_instant now email < pr_date d)
                (chrono_parse now (subject_body email)))"
proof -
  have sel: "\<And>r xs. (case filter (\<lambda>d. r < ed_date d)
                         (map (\<lambda>d. \<lparr>ed_date = pr_date d, ed_text = pr_text d,
                                      ed_confidence = (if pr_tags d then 1 else 8 / 10)\<rparr>) xs) of
                      [] \<Rightarrow> None | d # ds \<Rightarrow> Some (ed_date d))
                   = map_option pr_date (find (\<lambda>d. r < pr_date d) xs)"
    subgoal for r xs by (induction xs) auto
    done
  from assms show ?thesis
    by (auto simp: extractTrialEndDate_def extractDates_def Let_def reference_instant_def sel)
qed

lemma renewal_reference: "reference_instant now renewal_email = 1767225600000"
  by (simp add: reference_instant_def renewal_email_def)

lemma netflix_reference: "reference_instant now netflix_emailObj = now"
  by (simp add: reference_instant_def netflix_emailObj_def)

text \<open>
  C7, as the code has it. The date extractor has two strategies, in this order. (a) When
  the trial window (\<open>trial\<close>, then \<open>end\<close> or \<open>expire\<close> within 100 code units, with up to
  100 code units after it) is found and the date library parses a date in it, the result is
  the first date parsed from the window. (b) Otherwise the result is the first date, in the
  order of the library's results for the whole content, that is strictly later than the
  reference instant: the date of the email when it has one, the clock otherwise; it is
  absent when there is none. (c) So the result is absent when the library parses nothing.
\<close>

theorem extractTrialEndDate_strategies:
  assumes "content = subject_body email"
  shows "(\<forall>w d ds. search trialEndSection_pattern content = Some w
              \<and> chrono_parse now (whole w) = d # ds
            \<longrightarrow> extractTrialEndDate chrono_parse now email = Some (pr_date d))
       \<and> (search trialEndSection_pattern content = None
            \<or> (\<exists>w. search trialEndSection_pattern content = Some w
                   \<and> chrono_parse now (whole w) = [])
          \<longrightarrow> extractTrialEndDate chrono_parse now email
              = map_option pr_date
                  (find (\<lambda>d. reference_instant now email < pr_date d)
                     (chrono_parse now content)))
       \<and> ((search trialEndSection_pattern content = None
            \<or> (\<exists>w. search trialEndSection_pattern content = Some w
                   \<and> chrono_parse now (whole w) = []))
            \<and> chrono_parse now content = []
          \<longrightarrow> extractTrialEndDate chrono_parse now email = None)"
  unfolding assms
  using extractTrialEndDate_section [of email _ chrono_parse now]
    extractTrialEndDate_future [of email chrono_parse now]
  by auto

lemma trial_section_dates:
  "\<exists>w. search trialEndSection_pattern (subject_body trial_email) = Some w
       \<and> trial_calendar start_2025 (whole w)
          = [\<lparr>pr_date = 1740830400000, pr_text = js ''March 1, 2025'', pr_tags = True\<rparr>]"
  using trial_section trial_dates [of start_2025] by auto

theorem extractTrialEndDate_strategies_witness:
  "(\<exists>w. search trialEndSection_pattern (subject_body trial_email) = Some w
        \<and> trial_calendar start_2025 (whole w)
           = [\<lparr>pr_date = 1740830400000, pr_text = js ''March 1, 2025'', pr_tags = True\<rparr>])
   \<and> extractTrialEndDate trial_calendar start_2025 trial_email = Some 1740830400000
   \<and> search trialEndSection_pattern (subject_body renewal_email) = None
   \<and> extractTrialEndDate renewal_calendar start_2025 renewal_email = Some 1898942400000"
proof -
  from trial_section_dates obtain w where
    w: "search trialEndSection_pattern (subject_body trial_email) = Some w"
       "trial_calendar start_2025 (whole w)
        = [\<lparr>pr_date = 1740830400000, pr_text = js ''March 1, 2025'', pr_tags = True\<rparr>]"
    by blast
  from extractTrialEndDate_strategies [OF refl, of trial_email trial_calendar start_2025] w
  have a: "extractTrialEndDate trial_calendar start_2025 trial_email = Some 1740830400000"
    by simp
  from extractTrialEndDate_strategies [OF refl, of renewal_email renewal_calendar start_2025]
    renewal_no_section
  have b: "extractTrialEndDate renewal_calendar start_2025 renewal_email = Some 1898942400000"
    by (simp add: renewal_dates renewal_reference)
  from trial_section_dates a renewal_no_section b show ?thesis by blast
qed

text \<open>
  C7 as stated fails: the date returned by the second strategy is not the earliest of the
  later dates when a later one comes first in the text.
\<close>

theorem earliest_date_counterexample:
  "extractTrialEndDate renewal_calendar start_2025 renewal_email
   \<noteq> earliest_after (reference_instant start_2025 renewal_email)
        (map pr_date (renewal_calendar start_2025 (subject_body renewal_email)))"
proof -
  have "extractTrialEndDate renewal_calendar start_2025 renewal_email = Some 1898942400000"
    using extractTrialEndDate_future [of renewal_email renewal_calendar start_2025]
      renewal_no_section
    by (simp add: renewal_dates renewal_reference)
  moreover have "earliest_after (reference_instant start_2025 renewal_email)
        (map pr_date (renewal_calendar start_2025 (subject_body renewal_email)))
      = Some 1896177600000"
    by (simp add: renewal_dates earliest_after_def renewal_reference)
  ultimately show ?thesis by simp
qed

section \<open>The clock\<close>

lemma netflix_trial_end:
  "extractTrialEndDate netflix_calendar now netflix_emailObj
   = (if now < 1737979200000 then Some 1737979200000 else None)"
  using extractTrialEndDate_future [of netflix_emailObj netflix_calendar now] netflix_no_section
  by (simp add: netflix_dates netflix_reference)

text \<open>
  C2 fails on the code: \<open>extractSubscriptionData\<close> hands an object without a date to
  \<open>parseSubscriptionEmail\<close>, so the later dates are those after the clock. For the message
  of the first scenario, with a date library that reads 27 January 2025 in it whatever the
  clock, the call at the start of 2025 returns that date as trial end date and the call at
  the start of 2026 returns none.
\<close>

theorem parseEmail_reads_clock:
  "parseEmail netflix_calendar start_2025 netflix_email = Inr [netflix_detection (Some jan_27_2025)]
   \<and> parseEmail netflix_calendar start_2026 netflix_email = Inr [netflix_detection None]"
  by (simp add: netflix_parseEmail netflix_trial_end start_2025_def start_2026_def
      jan_27_2025_def)

section \<open>Messages without content\<close>

lemma blank_content:
  assumes "em_subject emailData = []" and "or_empty (em_bodyText emailData) = []"
    and "or_empty (em_bodyHtml emailData) = []"
  shows "getEmailContent emailData = js ''  ''"
  using assms by (simp add: getEmailContent_def js_def)

lemma blank_detect: "detect chrono_parse now ty (js ''  '') name = None"
  by (cases ty)
    (simp_all add: detect_def patterns_of_def
      ex_via_map [of _ TRIAL_SIGNUP_PATTERNS] ex_via_map [of _ TRIAL_REMINDER_PATTERNS]
      ex_via_map [of _ BILLING_CONFIRMATION_PATTERNS] ex_via_map [of _ SUBSCRIPTION_START_PATTERNS]
      ex_via_map [of _ PRICE_CHANGE_PATTERNS] blank_patterns)

text \<open>
  C5, as the code has it. For a message whose subject, text body and HTML body are all
  empty or absent, \<open>parseEmail\<close> raises no error and returns the empty list. The
  single-result parser \<open>parseSubscriptionEmail\<close> is the one that fails, with an \<open>Error\<close>,
  when subject and body are both empty.
\<close>

theorem empty_message_gives_empty_list:
  "(em_subject emailData = [] \<and> or_empty (em_bodyText emailData) = []
      \<and> or_empty (em_bodyHtml emailData) = []
    \<longrightarrow> parseEmail chrono_parse now emailData = Inr [])
   \<and> (e_subject email = [] \<and> e_body email = []
    \<longrightarrow> parseSubscriptionEmail chrono_parse now email
        = Inl (Error ''Invalid email object: must have subject or body''))"
proof -
  have "parseEmail chrono_parse now emailData = Inr []"
    if "em_subject emailData = [] \<and> or_empty (em_bodyText emailData) = []
        \<and> or_empty (em_bodyHtml emailData) = []"
    using that
    by (simp add: parseEmail_def blank_content Let_def detectTrialSignup_def
        detectTrialReminder_def detectBillingConfirmation_def detectSubscriptionStart_def
        detectPriceChange_def blank_detect push_def split: option.splits)
  then show ?thesis by (simp add: parseSubscriptionEmail_def)
qed

theorem empty_message_gives_empty_list_witness:
  "em_subject empty_email = [] \<and> or_empty (em_bodyText empty_email) = []
   \<and> or_empty (em_bodyHtml empty_email) = []
   \<and> parseEmail netflix_calendar start_2025 empty_email = Inr []
   \<and> e_subject empty_legacy_email = [] \<and> e_body empty_legacy_email = []
   \<and> parseSubscriptionEmail netflix_calendar start_2025 empty_legacy_email
       = Inl (Error ''Invalid email object: must have subject or body'')"
  using empty_message_gives_empty_list
    [of empty_email netflix_calendar start_2025 empty_legacy_email]
  by (simp add: empty_email_def empty_legacy_email_def or_empty_def)

text \<open>C5 as stated fails: for the empty message \<open>parseEmail\<close> raises no error.\<close>

theorem empty_message_counterexample:
  "\<not> (\<exists>err. parseEmail netflix_calendar start_2025 empty_email = Inl err)"
proof -
  have "parseEmail netflix_calendar start_2025 empty_email = Inr []"
    by (simp add: parseEmail_def blank_content empty_email_def or_empty_def Let_def
        detectTrialSignup_def detectTrialReminder_def detectBillingConfirmation_def
        detectSubscriptionStart_def detectPriceChange_def blank_detect push_def
        split: option.splits)
  then show ?thesis by simp
qed

section \<open>The billing cycle\<close>

lemma billingCycle_extractCycle:
  "d_billingCycle (extractSubscriptionData chrono_parse now content) = extractCycle content"
  by (simp add: extractSubscriptionData_def Let_def split: prod.splits)

lemma extractCycle_values:
  "extractCycle content \<in> {None, Some (js ''month''), Some (js ''quarter''),
     Some (js ''annual''), Some (js ''year''), Some (js ''week'')}"
  by (simp add: extractCycle_def cyclePatterns_def toLowerCase_def lowerCU_def js_def)


section \<open>Extractable signals and the scorer\<close>

lemma apples_billing:
  "map (\<lambda>p. test p apples_content) BILLING_CONFIRMATION_PATTERNS
   = [False, False, False, False, False, True, False]"
  apply (simp add: apples_content_def BILLING_CONFIRMATION_PATTERNS_def pat_defs)
  apply (simp only: ev cong: option.case_cong_weak if_weak_cong)
  done

lemma cycle_billing:
  "map (\<lambda>p. test p cycle_content) BILLING_CONFIRMATION_PATTERNS
   = [False, False, False, False, False, True, False]"
  apply (simp add: cycle_content_def BILLING_CONFIRMATION_PATTERNS_def pat_defs)
  apply (simp only: ev cong: option.case_cong_weak if_weak_cong)
  done

lemma apples_signals:
  "map (\<lambda>p. test p apples_content) [cost_signal, cycle_signal, date_signal]
   = [True, False, False]"
  apply (simp add: apples_content_def cost_signal_def cycle_signal_def date_signal_def pat_defs)
  apply (simp only: ev cong: option.case_cong_weak if_weak_cong)
  done

lemma cycle_signals:
  "map (\<lambda>p. test p cycle_content) [cost_signal, cycle_signal, date_signal]
   = [False, True, False]"
  apply (simp add: cycle_content_def cost_signal_def cycle_signal_def date_signal_def pat_defs)
  apply (simp only: ev cong: option.case_cong_weak if_weak_cong)
  done

lemma apples_confidence: "calculateConfidence apples_content billing_confirmation = 8 / 10"
  using apples_signals
  by (simp add: calculateConfidence_def patterns_of_def
      count_via_map [of _ BILLING_CONFIRMATION_PATTERNS] apples_billing)

lemma cycle_confidence: "calculateConfidence cycle_content billing_confirmation = 7 / 10"
  using cycle_signals
  by (simp add: calculateConfidence_def patterns_of_def
      count_via_map [of _ BILLING_CONFIRMATION_PATTERNS] cycle_billing)

lemma apples_cost_search:
  "map (\<lambda>p. search p apples_content) costPatterns = [None, None, None, None]"
  apply (simp add: apples_content_def costPatterns_def pat_defs)
  apply (simp only: ev cong: option.case_cong_weak if_weak_cong)
  done

lemma apples_cost: "extractCost apples_content = (None, None)"
  by (simp add: extractCost_def map_filter_via_map [of _ costPatterns] apples_cost_search)

lemma apples_cycles:
  "map (\<lambda>source. test (liti source) apples_content) cyclePatterns
   = [False, False, False, False, False]"
  apply (simp add: apples_content_def pat_defs)
  apply (simp only: ev cong: option.case_cong_weak if_weak_cong)
  done

lemma apples_cycle: "extractCycle apples_content = None"
  using apples_cycles by (simp add: extractCycle_def cyclePatterns_def)

lemma cycle_cycles:
  "map (\<lambda>source. test (liti source) cycle_content) cyclePatterns
   = [True, False, False, False, False]"
  apply (simp add: cycle_content_def pat_defs)
  apply (simp only: ev cong: option.case_cong_weak if_weak_cong)
  done

lemma cycle_cycle: "extractCycle cycle_content = Some (js ''month'')"
  using cycle_cycles
  by (simp add: extractCycle_def cyclePatterns_def toLowerCase_def lowerCU_def js_def)

lemma cost_extractCost:
  "d_cost (extractSubscriptionData chrono_parse now content) = fst (extractCost content)"
  by (simp add: extractSubscriptionData_def Let_def split: prod.splits)

lemma trialEndDate_extractTrialEndDate:
  "d_trialEndDate (extractSubscriptionData chrono_parse now content)
   = (if content = [] then None
      else extractTrialEndDate chrono_parse now
             \<lparr>e_from = [], e_subject = take 100 content, e_body = content, e_date = None\<rparr>)"
  by (simp add: extractSubscriptionData_def parseSubscriptionEmail_def Let_def
      split: prod.splits)

lemma apples_obj_content:
  "subject_body \<lparr>e_from = [], e_subject = take 100 apples_content, e_body = apples_content,
                 e_date = None\<rparr>
   = js ''payment processed 5 apples USD payment processed 5 apples USD''"
  by (simp add: subject_body_def apples_content_def js_def)

lemma apples_no_section:
  "search trialEndSection_pattern
     (js ''payment processed 5 apples USD payment processed 5 apples USD'') = None"
  apply (simp add: trialEndSection_pattern_def pat_defs)
  apply (simp only: ev cong: option.case_cong_weak if_weak_cong)
  done

lemma apples_dates:
  "netflix_calendar now (js ''payment processed 5 apples USD payment processed 5 apples USD'')
   = []"
  apply (simp add: netflix_calendar_def calendar_def js_def del: dates_at.simps)
  apply (simp only: ev_dates cong: if_weak_cong)
  done

lemma apples_no_date:
  "d_trialEndDate (extractSubscriptionData netflix_calendar now apples_content) = None"
proof -
  have ne: "apples_content \<noteq> []"
    by (simp add: apples_content_def js_def)
  show ?thesis
    using extractTrialEndDate_future
      [of "\<lparr>e_from = [], e_subject = take 100 apples_content, e_body = apples_content,
             e_date = None\<rparr>" netflix_calendar now]
    by (simp add: trialEndDate_extractTrialEndDate ne apples_obj_content apples_no_section
        apples_dates)
qed

lemma apples_cycle_extractable:
  "preserves_extractable_signals netflix_calendar start_2025 billing_confirmation
     apples_content cycle_content"
  by (simp add: preserves_extractable_signals_def patterns_of_def
      all_imp_via_map [of _ _ BILLING_CONFIRMATION_PATTERNS] apples_billing cycle_billing
      cost_extractCost apples_cost billingCycle_extractCycle apples_cycle apples_no_date)

text \<open>
  C3 as stated fails. The second content keeps every extractable signal of the first (the
  matching pattern; no amount, billing cycle or date is extracted from the first) and adds
  a billing cycle, and its confidence is lower: the first content passes the cost test of
  the scorer, \<open>\d+.*USD\<close>, with a text the cost extractor does not accept.
\<close>

theorem extractable_signal_counterexample:
  "preserves_extractable_signals netflix_calendar start_2025 billing_confirmation
     apples_content cycle_content
   \<and> d_billingCycle (extractSubscriptionData netflix_calendar start_2025 apples_content) = None
   \<and> d_billingCycle (extractSubscriptionData netflix_calendar start_2025 cycle_content)
       = Some (js ''month'')
   \<and> calculateConfidence apples_content billing_confirmation = 8 / 10
   \<and> calculateConfidence cycle_content billing_confirmation = 7 / 10
   \<and> calculateConfidence cycle_content billing_confirmation
       < calculateConfidence apples_content billing_confirmation"
  by (simp add: apples_cycle_extractable billingCycle_extractCycle apples_cycle cycle_cycle
      apples_confidence cycle_confidence)

end
